theory Spec2Isabelle
  imports Complex_Main
begin

section \<open>Multinode penalties of bioptim: data model\<close>

text \<open>
  The development embeds \<^verbatim>\<open>bioptim/limits/multinode_penalty.py\<close> and
  \<^verbatim>\<open>bioptim/limits/multinode_objective.py\<close>. Python exceptions are values of
  the type \<open>error\<close>; a function that may raise returns \<open>error + 'a\<close>, with \<open>Inl\<close>
  the exception. Mutation of \<open>self\<close>, of the pools and of the entries of a list is
  explicit state passing.
\<close>

datatype error =
    NotImplementedError string
  | RuntimeError string
  | IndexError
  | KeyError string
  | AttributeError

text \<open>
  Modelled from the spec: the enumeration \<open>Node\<close> is declared in
  \<^verbatim>\<open>misc/enums.py\<close>, outside the files at hand. The four markers are the ones
  \<open>MultinodePenalty.__init__\<close> names; \<open>OtherNode\<close> stands for every further
  member of the enumeration, by its name.
\<close>

datatype Node = START | MID | PENULTIMATE | END | OtherNode string

text \<open>
  The values a caller can pass as \<open>first_node\<close> or \<open>second_node\<close>: Python does not
  enforce the annotation \<open>Union[Node, int]\<close>. A \<open>bool\<close> is an instance of \<open>int\<close>
  in Python.
\<close>

datatype node_arg =
    NodeMarker Node
  | PyInt int
  | PyBool bool
  | PyFloat real
  | PyStr string
  | PyNone

definition isinstance_int :: "node_arg \<Rightarrow> bool" where
  "isinstance_int v = (case v of PyInt _ \<Rightarrow> True | PyBool _ \<Rightarrow> True | _ \<Rightarrow> False)"

definition valid_markers :: "node_arg list" where
  "valid_markers = [NodeMarker START, NodeMarker MID, NodeMarker PENULTIMATE, NodeMarker END]"

datatype MultinodePenaltyFcn = EQUALITY | CUSTOM | COM_EQUALITY | COM_VELOCITY_EQUALITY

datatype MultinodeObjectiveFcn =
  OBJ_EQUALITY | OBJ_CUSTOM | OBJ_COM_EQUALITY | OBJ_COM_VELOCITY_EQUALITY

text \<open>
  What a caller can pass as \<open>multinode_penalty\<close> (or \<open>custom_function\<close>): a member of
  one of the two enumerations, a user function (named by a number), or \<open>None\<close>.
\<close>

datatype fcn_arg =
    PenaltyFcn MultinodePenaltyFcn
  | ObjectiveFcn MultinodeObjectiveFcn
  | UserFunction nat
  | NoFunction

definition isinstance_MultinodePenaltyFcn :: "fcn_arg \<Rightarrow> bool" where
  "isinstance_MultinodePenaltyFcn f = (case f of PenaltyFcn _ \<Rightarrow> True | _ \<Rightarrow> False)"

datatype ConstraintType = INTERNAL | IMPLICIT | USER

text \<open>The value of \<open>base\<close>: assigned by \<open>prepare_multinode_penalties\<close> only.\<close>

datatype base_tag = BaseUnchanged | MayerFunction

text \<open>
  The attributes of a \<open>MultinodePenalty\<close>. The first three are the ones of the generic
  option that the base initialiser receives.

  Modelled from the spec: the generic option (\<^verbatim>\<open>misc/options.py\<close>) is outside the files
  at hand; of it the model keeps the target function \<open>penalty\<close>, the custom-function hook
  and the pool index \<open>list_index\<close> (-1 until assigned).
\<close>

record MultinodePenalty =
  penalty :: fcn_arg
  custom_function :: fcn_arg
  list_index :: int
  min_bound :: real
  max_bound :: real
  multinode_penalty :: bool
  weight :: real
  quadratic :: bool
  phase_first_idx :: int
  phase_second_idx :: int
  phase_pre_idx :: int
  phase_post_idx :: int
  first_node :: node_arg
  second_node :: node_arg
  node :: "node_arg \<times> node_arg"
  dt :: int
  node_idx :: "int list"
  constraint_type :: ConstraintType
  base :: base_tag

text \<open>
  The arguments of \<open>MultinodePenalty.__init__\<close>. Of \<open>**params\<close> the model keeps
  whether the key \<open>force_multinode\<close> is present and the \<open>list_index\<close> handed to the
  generic option (its default is -1).
\<close>

record init_args =
  arg_phase_first_idx :: int
  arg_phase_second_idx :: int
  arg_first_node :: node_arg
  arg_second_node :: node_arg
  arg_multinode_penalty :: fcn_arg
  arg_custom_function :: fcn_arg
  arg_min_bound :: real
  arg_max_bound :: real
  arg_weight :: real
  arg_force_multinode :: bool
  arg_list_index :: int

definition node_message :: string where
  "node_message =
     ''Multi Node Penalty only works with Node.START, Node.MID, Node.PENULTIMATE, Node.END or a int.''"

definition MultinodePenalty_init :: "init_args \<Rightarrow> error + MultinodePenalty" where
  "MultinodePenalty_init a =
     (let force_multinode = arg_force_multinode a;
          (custom_fn, fcn) =
             (if \<not> isinstance_MultinodePenaltyFcn (arg_multinode_penalty a) \<and> \<not> force_multinode
              then (arg_multinode_penalty a, PenaltyFcn CUSTOM)
              else (arg_custom_function a, arg_multinode_penalty a))
      in if arg_first_node a \<notin> set valid_markers \<and> \<not> isinstance_int (arg_first_node a)
         then Inl (NotImplementedError node_message)
         else if arg_second_node a \<notin> set valid_markers \<and> \<not> isinstance_int (arg_second_node a)
         then Inl (NotImplementedError node_message)
         else Inr \<lparr> penalty = fcn,
                    custom_function = custom_fn,
                    list_index = arg_list_index a,
                    min_bound = arg_min_bound a,
                    max_bound = arg_max_bound a,
                    multinode_penalty = True,
                    weight = arg_weight a,
                    quadratic = True,
                    phase_first_idx = arg_phase_first_idx a,
                    phase_second_idx = arg_phase_second_idx a,
                    phase_pre_idx = arg_phase_first_idx a,
                    phase_post_idx = arg_phase_second_idx a,
                    first_node = arg_first_node a,
                    second_node = arg_second_node a,
                    node = (arg_first_node a, arg_second_node a),
                    dt = 1,
                    node_idx = [0],
                    constraint_type = INTERNAL,
                    base = BaseUnchanged \<rparr>)"

text \<open>The arguments used in the concrete evaluations below.\<close>

definition example_args :: "node_arg \<Rightarrow> node_arg \<Rightarrow> real \<Rightarrow> init_args" where
  "example_args n1 n2 w =
     \<lparr> arg_phase_first_idx = 0,
       arg_phase_second_idx = 1,
       arg_first_node = n1,
       arg_second_node = n2,
       arg_multinode_penalty = PenaltyFcn EQUALITY,
       arg_custom_function = NoFunction,
       arg_min_bound = 0,
       arg_max_bound = 0,
       arg_weight = w,
       arg_force_multinode = False,
       arg_list_index = -1 \<rparr>"

definition example_penalty :: "node_arg \<Rightarrow> node_arg \<Rightarrow> real \<Rightarrow> MultinodePenalty" where
  "example_penalty n1 n2 w =
     \<lparr> penalty = PenaltyFcn EQUALITY,
       custom_function = NoFunction,
       list_index = -1,
       min_bound = 0,
       max_bound = 0,
       multinode_penalty = True,
       weight = w,
       quadratic = True,
       phase_first_idx = 0,
       phase_second_idx = 1,
       phase_pre_idx = 0,
       phase_post_idx = 1,
       first_node = n1,
       second_node = n2,
       node = (n1, n2),
       dt = 1,
       node_idx = [0],
       constraint_type = INTERNAL,
       base = BaseUnchanged \<rparr>"

section \<open>Symbolic matrices and node contexts\<close>

text \<open>
  CasADi and biorbd are libraries outside the repository. A symbolic matrix \<open>MX\<close> is
  modelled as a dense matrix of scalar terms: its number of columns and its rows. A
  scalar is an entry of a matrix of fresh symbols (\<open>MX.sym\<close>), a difference, or the
  result \<open>Opaque\<close> of a capability applied to scalars.
\<close>

datatype scalar = Symbol string nat nat | Diff scalar scalar | Opaque string "scalar list"

datatype MX = MX (n_cols: nat) (mx_rows: "scalar list list")

text \<open>The attribute \<open>shape\<close>: rows, then columns.\<close>

definition shape :: "MX \<Rightarrow> nat \<times> nat" where
  "shape m = (length (mx_rows m), n_cols m)"

fun scalar_of :: "MX \<Rightarrow> scalar option" where
  "scalar_of (MX c [[x]]) = (if c = 1 then Some x else None)"
| "scalar_of _ = None"

text \<open>
  The operator \<open>-\<close> of two matrices: elementwise on equal shapes; a 1-by-1 operand is
  subtracted from, or has subtracted from it, every entry of the other; any other pair
  of shapes is an error of the library.
\<close>

definition mx_minus :: "MX \<Rightarrow> MX \<Rightarrow> error + MX" where
  "mx_minus a b =
     (if shape a = shape b
      then Inr (MX (n_cols a) (map2 (map2 Diff) (mx_rows a) (mx_rows b)))
      else (case scalar_of a of
              Some x \<Rightarrow> Inr (MX (n_cols b) (map (map (Diff x)) (mx_rows b)))
            | None \<Rightarrow>
                (case scalar_of b of
                   Some y \<Rightarrow> Inr (MX (n_cols a) (map (map (\<lambda>x. Diff x y)) (mx_rows a)))
                 | None \<Rightarrow> Inl (RuntimeError ''Dimension mismatch''))))"

text \<open>\<open>MX.sym(name, r, c)\<close>: an \<open>r\<close>-by-\<open>c\<close> matrix of fresh symbols.\<close>

definition mx_sym :: "string \<Rightarrow> nat \<Rightarrow> nat \<Rightarrow> MX" where
  "mx_sym name r c = MX c (map (\<lambda>i. map (\<lambda>j. Symbol name i j) [0..<c]) [0..<r])"

text \<open>
  \<open>vertcat(*blocks)\<close>: the rows of the blocks, one block after the other; blocks of
  different widths are an error of the library.
\<close>

definition vertcat :: "MX list \<Rightarrow> error + MX" where
  "vertcat blocks =
     (case blocks of
        [] \<Rightarrow> Inr (MX 0 [])
      | b # _ \<Rightarrow>
          if list_all (\<lambda>m. n_cols m = n_cols b) blocks
          then Inr (MX (n_cols b) (concat (map mx_rows blocks)))
          else Inl (RuntimeError ''Dimension mismatch''))"

text \<open>\<open>m[idx, :]\<close>: the rows of \<open>m\<close> at the indices \<open>idx\<close>; an index past the last row is an error.\<close>

definition mx_getrows :: "MX \<Rightarrow> nat list \<Rightarrow> error + MX" where
  "mx_getrows m idx =
     (if list_all (\<lambda>i. i < length (mx_rows m)) idx
      then Inr (MX (n_cols m) (map (\<lambda>i. mx_rows m ! i) idx))
      else Inl (RuntimeError ''Index out of bounds''))"

text \<open>
  Modelled from the spec: the node context. The state variables of a phase
  (\<open>nlp.states\<close>) expose the state vector at the start of the interval (\<open>cx\<close>) and at
  its end (\<open>cx_end\<close>), and named sub-blocks, each with its symbol \<open>mx\<close> and its rows
  \<open>index\<close> in the state vector. The physical model exposes \<open>CoM\<close> and \<open>CoMdot\<close>,
  here with the conversion \<open>to_mx()\<close> of their result. The states mapping exposes the
  method \<open>map\<close> of each of its two directions.
\<close>

record OptimizationVariable =
  mx :: MX
  index :: "nat list"

record OptimizationVariableList =
  cx :: MX
  cx_end :: MX
  elements :: "(string \<times> OptimizationVariable) list"

definition keys :: "OptimizationVariableList \<Rightarrow> string list" where
  "keys st = map fst (elements st)"

definition getitem :: "OptimizationVariableList \<Rightarrow> string \<Rightarrow> error + OptimizationVariable" where
  "getitem st key = (case map_of (elements st) key of None \<Rightarrow> Inl (KeyError key) | Some v \<Rightarrow> Inr v)"

record BiorbdModel =
  CoM :: "MX \<Rightarrow> MX"
  CoMdot :: "MX \<Rightarrow> MX \<Rightarrow> MX"

record BiMapping =
  to_second :: "MX \<Rightarrow> MX"
  to_first :: "MX \<Rightarrow> MX"

section \<open>Pools and slot reservation\<close>

text \<open>
  A slot of a pool holds the empty list \<open>[]\<close> or a penalty. \<open>_add_penalty_to_pool\<close>
  stores \<open>self\<close>; \<open>ForeignPenalty\<close> is a penalty of another class that shares the
  pool. Only the empty list is falsy.
\<close>

datatype slot = NoPenalty | PenaltyOf MultinodePenalty | ForeignPenalty nat

definition falsy :: "slot \<Rightarrow> bool" where
  "falsy j = (case j of NoPenalty \<Rightarrow> True | _ \<Rightarrow> False)"

text \<open>
  Modelled from the spec: the problem \<open>ocp\<close> and the phase \<open>nlp\<close> are classes outside
  the files at hand; the model keeps the attributes the two files read (the pools
  \<open>g_internal\<close> and \<open>J_internal\<close>, \<open>n_phases\<close>, and of a phase its \<open>states\<close> and its
  \<open>model\<close>). An absent phase is \<open>None\<close>.
\<close>

record OptimalControlProgram =
  n_phases :: int
  g_internal :: "slot list"
  J_internal :: "slot list"

record NonLinearProgram =
  nlp_g_internal :: "slot list"
  nlp_J_internal :: "slot list"
  states :: OptimizationVariableList
  model :: BiorbdModel

text \<open>The loop \<open>for i, j in enumerate(g_to_add_to): if not j: ...\<close>, counting from \<open>i\<close>.\<close>

fun enumerate_first_falsy :: "nat \<Rightarrow> slot list \<Rightarrow> nat option" where
  "enumerate_first_falsy i [] = None"
| "enumerate_first_falsy i (j # rest) =
     (if falsy j then Some i else enumerate_first_falsy (Suc i) rest)"

text \<open>The loop \<open>while self.list_index >= len(g_to_add_to): g_to_add_to.append([])\<close>.\<close>

function append_while :: "int \<Rightarrow> slot list \<Rightarrow> slot list" where
  "append_while k g = (if k \<ge> int (length g) then append_while k (g @ [NoPenalty]) else g)"
  by pat_completeness auto
termination
  by (relation "measure (\<lambda>(k, g). nat (k + 1 - int (length g)))") auto

declare append_while.simps [simp del]

text \<open>
  \<open>MultinodePenalty.clear_penalty\<close>. The chosen pool is an alias of an attribute of
  \<open>nlp\<close> or of \<open>ocp\<close>: \<open>g_to_add_to\<close> is the pool together with the assignment that
  writes a changed pool back to its owner. The result is \<open>self\<close>, \<open>ocp\<close> and \<open>nlp\<close> after
  the call.
\<close>

definition clear_penalty ::
  "MultinodePenalty \<Rightarrow> OptimalControlProgram \<Rightarrow> NonLinearProgram option \<Rightarrow>
     MultinodePenalty \<times> OptimalControlProgram \<times> NonLinearProgram option" where
  "clear_penalty self ocp nlp =
     (let (g_to_add_to, store) =
            (if weight self = 0
             then (case nlp of
                     Some n \<Rightarrow> (nlp_g_internal n, \<lambda>g. (ocp, Some (n\<lparr>nlp_g_internal := g\<rparr>)))
                   | None \<Rightarrow> (g_internal ocp, \<lambda>g. (ocp\<lparr>g_internal := g\<rparr>, None)))
             else (case nlp of
                     Some n \<Rightarrow> (nlp_J_internal n, \<lambda>g. (ocp, Some (n\<lparr>nlp_J_internal := g\<rparr>)))
                   | None \<Rightarrow> (J_internal ocp, \<lambda>g. (ocp\<lparr>J_internal := g\<rparr>, None))))
      in if list_index self < 0
         then (case enumerate_first_falsy 0 g_to_add_to of
                 Some i \<Rightarrow> (self\<lparr>list_index := int i\<rparr>, ocp, nlp)
               | None \<Rightarrow>
                   (let g = g_to_add_to @ [NoPenalty]
                    in (self\<lparr>list_index := int (length g) - 1\<rparr>, store g)))
         else (let g = append_while (list_index self) g_to_add_to
               in (self, store (g[nat (list_index self) := NoPenalty]))))"

text \<open>
  Python's \<open>pool[i] = v\<close>: an index from \<open>-len(pool)\<close> up to \<open>len(pool) - 1\<close>, a
  negative one counting from the end; any other raises \<open>IndexError\<close>.
\<close>

definition py_setitem :: "'a list \<Rightarrow> int \<Rightarrow> 'a \<Rightarrow> error + 'a list" where
  "py_setitem xs i v =
     (let n = int (length xs); j = (if i < 0 then n + i else i)
      in if 0 \<le> j \<and> j < n then Inr (xs[nat j := v]) else Inl IndexError)"

text \<open>
  The element of \<open>all_pn\<close>: of a \<open>PenaltyNodeList\<close> the two attributes read here.
\<close>

record PenaltyNodeList =
  ocp_of :: OptimalControlProgram
  nlp_of :: "NonLinearProgram option"

text \<open>
  \<open>MultinodePenalty._add_penalty_to_pool\<close>; the result is \<open>all_pn[0].ocp\<close> and
  \<open>all_pn[0].nlp\<close> after the call.
\<close>

definition add_penalty_to_pool ::
  "MultinodePenalty \<Rightarrow> PenaltyNodeList list \<Rightarrow>
     error + (OptimalControlProgram \<times> NonLinearProgram option)" where
  "add_penalty_to_pool self all_pn =
     (case all_pn of
        [] \<Rightarrow> Inl IndexError
      | pn0 # _ \<Rightarrow>
          (let ocp = ocp_of pn0; nlp = nlp_of pn0;
               (pool, store) =
                 (if weight self = 0
                  then (case nlp of
                          Some n \<Rightarrow> (nlp_g_internal n, \<lambda>g. (ocp, Some (n\<lparr>nlp_g_internal := g\<rparr>)))
                        | None \<Rightarrow> (g_internal ocp, \<lambda>g. (ocp\<lparr>g_internal := g\<rparr>, None)))
                  else (case nlp of
                          Some n \<Rightarrow> (nlp_J_internal n, \<lambda>g. (ocp, Some (n\<lparr>nlp_J_internal := g\<rparr>)))
                        | None \<Rightarrow> (J_internal ocp, \<lambda>g. (ocp\<lparr>J_internal := g\<rparr>, None))))
           in (case py_setitem pool (list_index self) (PenaltyOf self) of
                 Inl e \<Rightarrow> Inl e
               | Inr g \<Rightarrow> Inr (store g))))"

text \<open>
  \<open>MultinodeObjective.clear_penalty\<close> and \<open>MultinodeObjective._add_penalty_to_pool\<close>:
  the object has the attributes of a \<open>MultinodePenalty\<close>.
\<close>

definition MultinodeObjective_clear_penalty ::
  "MultinodePenalty \<Rightarrow> OptimalControlProgram \<Rightarrow> NonLinearProgram option \<Rightarrow>
     MultinodePenalty \<times> OptimalControlProgram \<times> NonLinearProgram option" where
  "MultinodeObjective_clear_penalty self ocp nlp =
     (let (g_to_add_to, store) =
            (case nlp of
               Some n \<Rightarrow> (nlp_J_internal n, \<lambda>g. (ocp, Some (n\<lparr>nlp_J_internal := g\<rparr>)))
             | None \<Rightarrow> (J_internal ocp, \<lambda>g. (ocp\<lparr>J_internal := g\<rparr>, None)))
      in if list_index self < 0
         then (case enumerate_first_falsy 0 g_to_add_to of
                 Some i \<Rightarrow> (self\<lparr>list_index := int i\<rparr>, ocp, nlp)
               | None \<Rightarrow>
                   (let g = g_to_add_to @ [NoPenalty]
                    in (self\<lparr>list_index := int (length g) - 1\<rparr>, store g)))
         else (let g = append_while (list_index self) g_to_add_to
               in (self, store (g[nat (list_index self) := NoPenalty]))))"

definition MultinodeObjective_add_penalty_to_pool ::
  "MultinodePenalty \<Rightarrow> PenaltyNodeList list \<Rightarrow>
     error + (OptimalControlProgram \<times> NonLinearProgram option)" where
  "MultinodeObjective_add_penalty_to_pool self all_pn =
     (case all_pn of
        [] \<Rightarrow> Inl IndexError
      | pn0 # _ \<Rightarrow>
          (let ocp = ocp_of pn0; nlp = nlp_of pn0;
               (pool, store) =
                 (case nlp of
                    Some n \<Rightarrow> (nlp_J_internal n, \<lambda>g. (ocp, Some (n\<lparr>nlp_J_internal := g\<rparr>)))
                  | None \<Rightarrow> (J_internal ocp, \<lambda>g. (ocp\<lparr>J_internal := g\<rparr>, None)))
           in (case py_setitem pool (list_index self) (PenaltyOf self) of
                 Inl e \<Rightarrow> Inl e
               | Inr g \<Rightarrow> Inr (store g))))"

text \<open>
  The pools as the methods select them: \<open>nlp.g_internal if nlp else ocp.g_internal\<close>,
  and the same for \<open>J_internal\<close>; \<open>target_pool\<close> is the selection of
  \<open>MultinodePenalty\<close>, by the weight.
\<close>

definition constraint_pool :: "OptimalControlProgram \<Rightarrow> NonLinearProgram option \<Rightarrow> slot list" where
  "constraint_pool ocp nlp = (case nlp of Some n \<Rightarrow> nlp_g_internal n | None \<Rightarrow> g_internal ocp)"

definition objective_pool :: "OptimalControlProgram \<Rightarrow> NonLinearProgram option \<Rightarrow> slot list" where
  "objective_pool ocp nlp = (case nlp of Some n \<Rightarrow> nlp_J_internal n | None \<Rightarrow> J_internal ocp)"

definition target_pool ::
  "MultinodePenalty \<Rightarrow> OptimalControlProgram \<Rightarrow> NonLinearProgram option \<Rightarrow> slot list" where
  "target_pool self ocp nlp =
     (if weight self = 0 then constraint_pool ocp nlp else objective_pool ocp nlp)"

text \<open>Every constraint pool, and every objective pool, of a problem and a phase.\<close>

definition all_constraint_pools ::
  "OptimalControlProgram \<Rightarrow> NonLinearProgram option \<Rightarrow> slot list \<times> slot list option" where
  "all_constraint_pools ocp nlp = (g_internal ocp, map_option nlp_g_internal nlp)"

definition all_objective_pools ::
  "OptimalControlProgram \<Rightarrow> NonLinearProgram option \<Rightarrow> slot list \<times> slot list option" where
  "all_objective_pools ocp nlp = (J_internal ocp, map_option nlp_J_internal nlp)"

text \<open>
  Vocabulary of the statements: the reservation of \<open>clear_penalty\<close> on one pool,
  as the new \<open>list_index\<close> and the new pool, and the assignment of a pool to its
  owner (\<open>nlp\<close> when there is one, \<open>ocp\<close> otherwise).
\<close>

definition reserve_slot :: "int \<Rightarrow> slot list \<Rightarrow> int \<times> slot list" where
  "reserve_slot k g =
     (if k < 0
      then (case enumerate_first_falsy 0 g of
              Some i \<Rightarrow> (int i, g)
            | None \<Rightarrow> (int (length (g @ [NoPenalty])) - 1, g @ [NoPenalty]))
      else (k, (append_while k g)[nat k := NoPenalty]))"

definition put_constraint_pool ::
  "slot list \<Rightarrow> OptimalControlProgram \<Rightarrow> NonLinearProgram option \<Rightarrow>
     OptimalControlProgram \<times> NonLinearProgram option" where
  "put_constraint_pool g ocp nlp =
     (case nlp of
        Some n \<Rightarrow> (ocp, Some (n\<lparr>nlp_g_internal := g\<rparr>))
      | None \<Rightarrow> (ocp\<lparr>g_internal := g\<rparr>, None))"

definition put_objective_pool ::
  "slot list \<Rightarrow> OptimalControlProgram \<Rightarrow> NonLinearProgram option \<Rightarrow>
     OptimalControlProgram \<times> NonLinearProgram option" where
  "put_objective_pool g ocp nlp =
     (case nlp of
        Some n \<Rightarrow> (ocp, Some (n\<lparr>nlp_J_internal := g\<rparr>))
      | None \<Rightarrow> (ocp\<lparr>J_internal := g\<rparr>, None))"

section \<open>The list of multinode penalties\<close>

text \<open>
  \<open>MultinodePenaltyList.add\<close>. Modelled from the spec: \<open>_add\<close> of the generic list is
  outside the files at hand; each call creates a new entry of \<open>option_type\<close> from the
  arguments and appends it. The list is the sequence of its entries, in insertion order.
\<close>

definition add :: "MultinodePenalty list \<Rightarrow> fcn_arg \<Rightarrow> init_args \<Rightarrow> error + MultinodePenalty list" where
  "add self fcn extra_arguments =
     (let (extra, fcn') =
            (if \<not> isinstance_MultinodePenaltyFcn fcn
             then (extra_arguments\<lparr>arg_custom_function := fcn\<rparr>, PenaltyFcn CUSTOM)
             else (extra_arguments, fcn))
      in case MultinodePenalty_init (extra\<lparr>arg_multinode_penalty := fcn'\<rparr>) of
           Inl e \<Rightarrow> Inl e
         | Inr entry \<Rightarrow> Inr (self @ [entry]))"

text \<open>
  \<open>MultinodeObjective.__init__\<close>: the initialiser of \<open>Objective\<close> (outside the files at
  hand, a parameter that returns or raises), then \<open>MultinodePenalty.__init__\<close> with the
  node and phase arguments, \<open>multinode_objective\<close> and \<open>**params\<close>; \<open>custom_function\<close>
  and \<open>weight\<close> are not handed on, so that they take their defaults there.
\<close>

definition MultinodeObjective_init ::
  "(init_args \<Rightarrow> error option) \<Rightarrow> init_args \<Rightarrow> error + MultinodePenalty" where
  "MultinodeObjective_init Objective_init a =
     (case Objective_init a of
        Some e \<Rightarrow> Inl e
      | None \<Rightarrow> MultinodePenalty_init (a\<lparr>arg_custom_function := NoFunction, arg_weight := 0\<rparr>))"

definition higher_message :: string where
  "higher_message = ''Phase index of the multinode_penalty is higher than the number of phases''"

definition positive_message :: string where
  "positive_message = ''Phase index of the multinode_penalty need to be positive''"

text \<open>
  The loop of \<open>prepare_multinode_penalties\<close> over the entries still to visit, with the
  lists \<open>full_phase_multinode_penalty\<close> and \<open>existing_phases\<close> built so far. An entry
  with a weight is changed in place (its \<open>base\<close>) before it is appended.
\<close>

fun prepare_loop ::
  "int \<Rightarrow> MultinodePenalty list \<Rightarrow> MultinodePenalty list \<Rightarrow> int list \<Rightarrow>
     error + MultinodePenalty list" where
  "prepare_loop n [] full_phase_multinode_penalty existing_phases =
     Inr full_phase_multinode_penalty"
| "prepare_loop n (mnc # rest) full_phase_multinode_penalty existing_phases =
     (let idx_phase = phase_first_idx mnc
      in if phase_first_idx mnc \<ge> n \<or> phase_second_idx mnc \<ge> n
         then Inl (RuntimeError higher_message)
         else if phase_first_idx mnc < 0 \<or> phase_second_idx mnc < 0
         then Inl (RuntimeError positive_message)
         else (let existing = existing_phases @ [idx_phase];
                   mnc' = (if weight mnc \<noteq> 0 then mnc\<lparr>base := MayerFunction\<rparr> else mnc)
               in prepare_loop n rest (full_phase_multinode_penalty @ [mnc']) existing))"

definition prepare_multinode_penalties ::
  "MultinodePenalty list \<Rightarrow> OptimalControlProgram \<Rightarrow> error + MultinodePenalty list" where
  "prepare_multinode_penalties self ocp = prepare_loop (n_phases ocp) self [] []"

section \<open>The strategies\<close>

text \<open>Python's \<open>str\<close> of a natural number and of a shape, as the message formats them.\<close>

fun str_nat :: "nat \<Rightarrow> string" where
  "str_nat n =
     (if n < 10 then [''0123456789'' ! n]
      else str_nat (n div 10) @ [''0123456789'' ! (n mod 10)])"

declare str_nat.simps [simp del]

definition str_shape :: "nat \<times> nat \<Rightarrow> string" where
  "str_shape s = ''('' @ str_nat (fst s) @ '', '' @ str_nat (snd s) @ '')''"

definition advice :: string where
  "advice = ''Please use a custom transition or supply states_mapping''"

definition continuity_message :: "nat \<times> nat \<Rightarrow> nat \<times> nat \<Rightarrow> string" where
  "continuity_message pre post =
     ''Continuity can't be established since the number of x to be matched is '' @
     str_shape pre @ '' in the pre-transition phase and '' @ str_shape post @
     '' post-transition phase. '' @ advice"

text \<open>
  \<open>Functions.equality\<close>. Of \<open>multinode_penalty\<close> the strategies read the attribute
  \<open>states_mapping\<close> only, which is their first argument here. \<open>all_pn[1]\<close> of a shorter
  list raises \<open>IndexError\<close>; an attribute of an absent phase raises \<open>AttributeError\<close>.
\<close>

definition equality :: "BiMapping \<Rightarrow> PenaltyNodeList list \<Rightarrow> error + MX" where
  "equality states_mapping all_pn =
     (case all_pn of
        pn0 # pn1 # _ \<Rightarrow>
          (case nlp_of pn0 of
             None \<Rightarrow> Inl AttributeError
           | Some nlp_pre \<Rightarrow>
               (case nlp_of pn1 of
                  None \<Rightarrow> Inl AttributeError
                | Some nlp_post \<Rightarrow>
                    (let states_pre = to_second states_mapping (cx_end (states nlp_pre));
                         states_post = to_first states_mapping (cx (states nlp_post))
                     in if shape states_pre \<noteq> shape states_post
                        then Inl (RuntimeError
                                    (continuity_message (shape states_pre) (shape states_post)))
                        else mx_minus states_pre states_post)))
      | _ \<Rightarrow> Inl IndexError)"

text \<open>
  The comprehension \<open>[MX.sym(f"{key}", *nlp_post.states[key].mx.shape) for key in ...]\<close>.
\<close>

fun sym_list :: "OptimizationVariableList \<Rightarrow> string list \<Rightarrow> error + MX list" where
  "sym_list st [] = Inr []"
| "sym_list st (key # rest) =
     (case getitem st key of
        Inl e \<Rightarrow> Inl e
      | Inr v \<Rightarrow>
          (case sym_list st rest of
             Inl e \<Rightarrow> Inl e
           | Inr ms \<Rightarrow> Inr (mx_sym key (fst (shape (mx v))) (snd (shape (mx v))) # ms)))"

text \<open>
  \<open>Functions.com_equality\<close>. \<open>biorbd.to_casadi_func\<close> is a parameter: it receives the
  name, the expression and the symbolic inputs, and the function it builds is applied
  to the arguments given last.
\<close>

definition com_equality ::
  "(string \<Rightarrow> MX \<Rightarrow> MX list \<Rightarrow> MX list \<Rightarrow> MX) \<Rightarrow> BiMapping \<Rightarrow> PenaltyNodeList list \<Rightarrow>
     error + MX" where
  "com_equality to_casadi_func states_mapping all_pn =
     (case all_pn of
        pn0 # pn1 # _ \<Rightarrow>
          (case nlp_of pn0 of
             None \<Rightarrow> Inl AttributeError
           | Some nlp_pre \<Rightarrow>
          (case nlp_of pn1 of
             None \<Rightarrow> Inl AttributeError
           | Some nlp_post \<Rightarrow>
          (let states_pre = to_second states_mapping (cx_end (states nlp_pre));
               states_post = to_first states_mapping (cx (states nlp_post))
           in
          (case sym_list (states nlp_post) (keys (states nlp_post)) of
             Inl e \<Rightarrow> Inl e
           | Inr states_post_sym_list \<Rightarrow>
          (case vertcat states_post_sym_list of
             Inl e \<Rightarrow> Inl e
           | Inr states_post_sym \<Rightarrow>
          if shape states_pre \<noteq> shape states_post
          then Inl (RuntimeError (continuity_message (shape states_pre) (shape states_post)))
          else
          (case getitem (states nlp_pre) ''q'' of
             Inl e \<Rightarrow> Inl e
           | Inr q \<Rightarrow>
          (case mx_getrows states_pre (index q) of
             Inl e \<Rightarrow> Inl e
           | Inr pre_q \<Rightarrow>
          (let pre_com = CoM (model nlp_pre) pre_q
           in
          (case states_post_sym_list of
             [] \<Rightarrow> Inl IndexError
           | post_q # _ \<Rightarrow>
          (let post_com = CoM (model nlp_post) post_q;
               pre_states_cx = cx (states nlp_pre);
               post_states_cx = cx (states nlp_post)
           in
          (case mx_minus pre_com post_com of
             Inl e \<Rightarrow> Inl e
           | Inr difference \<Rightarrow>
               Inr (to_casadi_func ''com_equality'' difference
                      [states_pre, states_post_sym]
                      [pre_states_cx, post_states_cx]))))))))))))
      | _ \<Rightarrow> Inl IndexError)"

text \<open>\<open>Functions.com_velocity_equality\<close>.\<close>

definition com_velocity_equality ::
  "(string \<Rightarrow> MX \<Rightarrow> MX list \<Rightarrow> MX list \<Rightarrow> MX) \<Rightarrow> BiMapping \<Rightarrow> PenaltyNodeList list \<Rightarrow>
     error + MX" where
  "com_velocity_equality to_casadi_func states_mapping all_pn =
     (case all_pn of
        pn0 # pn1 # _ \<Rightarrow>
          (case nlp_of pn0 of
             None \<Rightarrow> Inl AttributeError
           | Some nlp_pre \<Rightarrow>
          (case nlp_of pn1 of
             None \<Rightarrow> Inl AttributeError
           | Some nlp_post \<Rightarrow>
          (let states_pre = to_second states_mapping (cx_end (states nlp_pre));
               states_post = to_first states_mapping (cx (states nlp_post))
           in
          (case sym_list (states nlp_post) (keys (states nlp_post)) of
             Inl e \<Rightarrow> Inl e
           | Inr states_post_sym_list \<Rightarrow>
          (case vertcat states_post_sym_list of
             Inl e \<Rightarrow> Inl e
           | Inr states_post_sym \<Rightarrow>
          if shape states_pre \<noteq> shape states_post
          then Inl (RuntimeError (continuity_message (shape states_pre) (shape states_post)))
          else
          (case getitem (states nlp_pre) ''q'' of
             Inl e \<Rightarrow> Inl e
           | Inr q \<Rightarrow>
          (case mx_getrows states_pre (index q) of
             Inl e \<Rightarrow> Inl e
           | Inr pre_q \<Rightarrow>
          (case getitem (states nlp_pre) ''qdot'' of
             Inl e \<Rightarrow> Inl e
           | Inr qdot \<Rightarrow>
          (case mx_getrows states_pre (index qdot) of
             Inl e \<Rightarrow> Inl e
           | Inr pre_qdot \<Rightarrow>
          (let pre_com_dot = CoMdot (model nlp_pre) pre_q pre_qdot
           in
          (case states_post_sym_list of
             post_q # post_qdot # _ \<Rightarrow>
          (let post_com_dot = CoMdot (model nlp_post) post_q post_qdot;
               pre_states_cx = cx_end (states nlp_pre);
               post_states_cx = cx (states nlp_post)
           in
          (case mx_minus pre_com_dot post_com_dot of
             Inl e \<Rightarrow> Inl e
           | Inr difference \<Rightarrow>
               Inr (to_casadi_func ''com_dot_equality'' difference
                      [states_pre, states_post_sym]
                      [pre_states_cx, post_states_cx])))
           | _ \<Rightarrow> Inl IndexError)))))))))))
      | _ \<Rightarrow> Inl IndexError)"

section \<open>Concrete problems\<close>

text \<open>The problems, phases and entries of the concrete evaluations.\<close>

definition example_ocp :: "slot list \<Rightarrow> slot list \<Rightarrow> OptimalControlProgram" where
  "example_ocp g j = \<lparr> n_phases = 2, g_internal = g, J_internal = j \<rparr>"

definition constraint_entry :: MultinodePenalty where
  "constraint_entry = example_penalty (NodeMarker END) (NodeMarker START) 0"

definition objective_entry :: MultinodePenalty where
  "objective_entry = example_penalty (NodeMarker END) (NodeMarker START) 5"

text \<open>
  Vocabulary of the statements: the node arguments the constructor accepts, the phase
  indices that are valid for \<open>n\<close> phases, and an entry as \<open>prepare\<close> leaves it.
\<close>

fun node_accepted :: "node_arg \<Rightarrow> bool" where
  "node_accepted (NodeMarker START) = True"
| "node_accepted (NodeMarker MID) = True"
| "node_accepted (NodeMarker PENULTIMATE) = True"
| "node_accepted (NodeMarker END) = True"
| "node_accepted (NodeMarker (OtherNode name)) = False"
| "node_accepted (PyInt i) = True"
| "node_accepted (PyBool b) = True"
| "node_accepted (PyFloat x) = False"
| "node_accepted (PyStr s) = False"
| "node_accepted PyNone = False"

definition valid_phase_indices :: "int \<Rightarrow> MultinodePenalty \<Rightarrow> bool" where
  "valid_phase_indices n m =
     (0 \<le> phase_first_idx m \<and> phase_first_idx m < n \<and>
      0 \<le> phase_second_idx m \<and> phase_second_idx m < n)"

definition prepared :: "MultinodePenalty \<Rightarrow> MultinodePenalty" where
  "prepared m = (if weight m \<noteq> 0 then m\<lparr>base := MayerFunction\<rparr> else m)"

definition phase_error :: "int \<Rightarrow> MultinodePenalty \<Rightarrow> error" where
  "phase_error n m =
     RuntimeError (if phase_first_idx m \<ge> n \<or> phase_second_idx m \<ge> n
                   then higher_message else positive_message)"

definition entry_at :: "int \<Rightarrow> int \<Rightarrow> real \<Rightarrow> MultinodePenalty" where
  "entry_at p1 p2 w =
     (example_penalty (NodeMarker END) (NodeMarker START) w)
       \<lparr>phase_first_idx := p1, phase_second_idx := p2\<rparr>"

text \<open>
  The node contexts of the concrete evaluations: two phases with the states \<open>q\<close> and
  \<open>qdot\<close>, a model whose capabilities are opaque, the identity mapping, and a
  \<open>to_casadi_func\<close> that records what it is given.
\<close>

definition state_vector :: "string \<Rightarrow> MX" where
  "state_vector name = MX 1 [[Symbol name 0 0], [Symbol name 1 0]]"

definition example_states :: "string \<Rightarrow> OptimizationVariableList" where
  "example_states name =
     \<lparr> cx = state_vector name,
       cx_end = state_vector (name @ ''_end''),
       elements = [(''q'', \<lparr> mx = MX 1 [[Symbol ''q'' 0 0]], index = [0] \<rparr>),
                   (''qdot'', \<lparr> mx = MX 1 [[Symbol ''qdot'' 0 0]], index = [1] \<rparr>)] \<rparr>"

definition example_model :: BiorbdModel where
  "example_model =
     \<lparr> CoM = (\<lambda>q. MX 1 [[Opaque ''CoM'' (concat (mx_rows q))]]),
       CoMdot = (\<lambda>q qdot. MX 1 [[Opaque ''CoMdot'' (concat (mx_rows q) @ concat (mx_rows qdot))]]) \<rparr>"

definition example_nlp :: "string \<Rightarrow> NonLinearProgram" where
  "example_nlp name =
     \<lparr> nlp_g_internal = [], nlp_J_internal = [],
       states = example_states name, model = example_model \<rparr>"

definition example_node :: "string \<Rightarrow> PenaltyNodeList" where
  "example_node name = \<lparr> ocp_of = example_ocp [] [], nlp_of = Some (example_nlp name) \<rparr>"

definition identity_mapping :: BiMapping where
  "identity_mapping = \<lparr> to_second = (\<lambda>x. x), to_first = (\<lambda>x. x) \<rparr>"

definition first_row_mapping :: BiMapping where
  "first_row_mapping = \<lparr> to_second = (\<lambda>x. MX (n_cols x) (take 1 (mx_rows x))), to_first = (\<lambda>x. x) \<rparr>"

definition recording_func :: "string \<Rightarrow> MX \<Rightarrow> MX list \<Rightarrow> MX list \<Rightarrow> MX" where
  "recording_func name expr inputs args =
     MX 1 [[Opaque name (concat (concat (map mx_rows (expr # inputs @ args))))]]"

text \<open>
  A phase with given pools, and the node of a problem alone and of a problem and a phase.
\<close>

definition example_phase :: "slot list \<Rightarrow> slot list \<Rightarrow> NonLinearProgram" where
  "example_phase g j = (example_nlp ''x'')\<lparr>nlp_g_internal := g, nlp_J_internal := j\<rparr>"

definition problem_node :: "OptimalControlProgram \<Rightarrow> PenaltyNodeList" where
  "problem_node ocp = \<lparr> ocp_of = ocp, nlp_of = None \<rparr>"

definition phase_node :: "OptimalControlProgram \<Rightarrow> NonLinearProgram \<Rightarrow> PenaltyNodeList" where
  "phase_node ocp nlp = \<lparr> ocp_of = ocp, nlp_of = Some nlp \<rparr>"

section \<open>Construction\<close>

lemma in_valid_markers:
  "v \<in> set valid_markers \<longleftrightarrow>
     v = NodeMarker START \<or> v = NodeMarker MID \<or> v = NodeMarker PENULTIMATE \<or> v = NodeMarker END"
  by (auto simp: valid_markers_def)

lemma MultinodePenalty_init_example:
  "MultinodePenalty_init (example_args (PyInt i) (NodeMarker START) w) =
     Inr (example_penalty (PyInt i) (NodeMarker START) w)"
  by (simp add: MultinodePenalty_init_def example_args_def example_penalty_def
      in_valid_markers isinstance_int_def isinstance_MultinodePenaltyFcn_def)

section \<open>Slot reservation\<close>

lemma append_while_eq:
  "append_while k g = g @ replicate (nat (k + 1 - int (length g))) NoPenalty"
proof (induction k g rule: append_while.induct)
  case (1 k g)
  show ?case
  proof (cases "k \<ge> int (length g)")
    case True
    then have "nat (k + 1 - int (length g)) = Suc (nat (k + 1 - int (length (g @ [NoPenalty]))))"
      by simp
    with True "1" show ?thesis
      by (subst append_while.simps) (simp add: replicate_app_Cons_same)
  next
    case False
    then show ?thesis
      by (subst append_while.simps) simp
  qed
qed

lemma enumerate_first_falsy_Some:
  "enumerate_first_falsy s g = Some i \<Longrightarrow>
     s \<le> i \<and> i - s < length g \<and> g ! (i - s) = NoPenalty \<and> (\<forall>j < i - s. g ! j \<noteq> NoPenalty)"
proof (induction g arbitrary: s)
  case Nil
  then show ?case by simp
next
  case (Cons a g)
  show ?case
  proof (cases "falsy a")
    case True
    with Cons.prems show ?thesis by (auto simp: falsy_def split: slot.splits)
  next
    case False
    with Cons.prems have r: "enumerate_first_falsy (Suc s) g = Some i" by simp
    from Cons.IH [OF r] have h: "Suc s \<le> i" "i - Suc s < length g" "g ! (i - Suc s) = NoPenalty"
       "\<forall>j < i - Suc s. g ! j \<noteq> NoPenalty" by auto
    from h(1) have e: "i - s = Suc (i - Suc s)" by simp
    from False have a: "a \<noteq> NoPenalty" by (auto simp: falsy_def)
    show ?thesis using h a unfolding e by (auto simp: nth_Cons split: nat.splits)
  qed
qed

lemma enumerate_first_falsy_None:
  "enumerate_first_falsy s g = None \<longleftrightarrow> NoPenalty \<notin> set g"
  by (induction g arbitrary: s) (auto simp: falsy_def split: slot.splits)

lemma reserve_slot_index:
  "reserve_slot k g = (k', g') \<Longrightarrow>
     0 \<le> k' \<and> nat k' < length g' \<and> g' ! nat k' = NoPenalty \<and> length g \<le> length g'"
  by (auto simp: reserve_slot_def append_while_eq nth_append
      split: if_splits option.splits dest!: enumerate_first_falsy_Some)

lemma reserve_slot_again:
  assumes "reserve_slot k g = (k', g')"
  shows "reserve_slot k' g' = (k', g')"
proof -
  from reserve_slot_index [OF assms] have h: "0 \<le> k'" "nat k' < length g'" "g' ! nat k' = NoPenalty"
    by auto
  then have "append_while k' g' = g'"
    by (simp add: append_while_eq)
  with h show ?thesis
    by (simp add: reserve_slot_def list_update_same_conv)
qed

lemma reserve_slot_nonneg:
  "0 \<le> k \<Longrightarrow> reserve_slot k g =
     (k, (g @ replicate (nat (k + 1 - int (length g))) NoPenalty)[nat k := NoPenalty])"
  by (simp add: reserve_slot_def append_while_eq)

lemma reserve_slot_grow:
  "0 \<le> k \<Longrightarrow> int (length g) < k + 1 \<Longrightarrow>
     reserve_slot k g = (k, g @ replicate (nat (k + 1) - length g) NoPenalty)"
proof -
  assume k: "0 \<le> k" and l: "int (length g) < k + 1"
  let ?r = "replicate (nat (k + 1 - int (length g))) NoPenalty"
  have n: "nat (k + 1 - int (length g)) = nat (k + 1) - length g" using k l by linarith
  have "(g @ ?r) ! nat k = NoPenalty" using k l by (auto simp: nth_append)
  moreover have "nat k < length (g @ ?r)" using k l by auto
  ultimately have "(g @ ?r)[nat k := NoPenalty] = g @ ?r"
    by (simp only: list_update_same_conv)
  then show ?thesis using k n by (simp add: reserve_slot_nonneg)
qed

lemma clear_penalty_eq:
  "clear_penalty self ocp nlp =
     (let (k, g) = reserve_slot (list_index self) (target_pool self ocp nlp)
      in (self\<lparr>list_index := k\<rparr>,
          (if weight self = 0 then put_constraint_pool g ocp nlp else put_objective_pool g ocp nlp)))"
  by (auto simp: clear_penalty_def reserve_slot_def target_pool_def constraint_pool_def
      objective_pool_def put_constraint_pool_def put_objective_pool_def Let_def
      split: option.splits)

lemma MultinodeObjective_clear_penalty_eq:
  "MultinodeObjective_clear_penalty self ocp nlp =
     (let (k, g) = reserve_slot (list_index self) (objective_pool ocp nlp)
      in (self\<lparr>list_index := k\<rparr>, put_objective_pool g ocp nlp))"
  by (auto simp: MultinodeObjective_clear_penalty_def reserve_slot_def
      objective_pool_def put_objective_pool_def Let_def
      split: option.splits)


lemma put_constraint_pool_get:
  "put_constraint_pool g ocp nlp = (o1, n1) \<Longrightarrow>
     constraint_pool o1 n1 = g \<and> objective_pool o1 n1 = objective_pool ocp nlp \<and>
     all_objective_pools o1 n1 = all_objective_pools ocp nlp"
  by (auto simp: put_constraint_pool_def constraint_pool_def objective_pool_def
      all_objective_pools_def split: option.splits)

lemma put_objective_pool_get:
  "put_objective_pool g ocp nlp = (o1, n1) \<Longrightarrow>
     objective_pool o1 n1 = g \<and> constraint_pool o1 n1 = constraint_pool ocp nlp \<and>
     all_constraint_pools o1 n1 = all_constraint_pools ocp nlp"
  by (auto simp: put_objective_pool_def constraint_pool_def objective_pool_def
      all_constraint_pools_def split: option.splits)

lemma put_constraint_pool_same:
  "put_constraint_pool (constraint_pool ocp nlp) ocp nlp = (ocp, nlp)"
  by (auto simp: put_constraint_pool_def constraint_pool_def split: option.splits)

lemma put_objective_pool_same:
  "put_objective_pool (objective_pool ocp nlp) ocp nlp = (ocp, nlp)"
  by (auto simp: put_objective_pool_def objective_pool_def split: option.splits)

lemma add_penalty_to_pool_eq:
  "add_penalty_to_pool self (pn # rest) =
     (case py_setitem (target_pool self (ocp_of pn) (nlp_of pn)) (list_index self) (PenaltyOf self) of
        Inl e \<Rightarrow> Inl e
      | Inr g \<Rightarrow> Inr (if weight self = 0 then put_constraint_pool g (ocp_of pn) (nlp_of pn)
                       else put_objective_pool g (ocp_of pn) (nlp_of pn)))"
  by (auto simp: add_penalty_to_pool_def target_pool_def constraint_pool_def
      objective_pool_def put_constraint_pool_def put_objective_pool_def Let_def
      split: option.splits sum.splits)

lemma MultinodeObjective_add_penalty_to_pool_eq:
  "MultinodeObjective_add_penalty_to_pool self (pn # rest) =
     (case py_setitem (objective_pool (ocp_of pn) (nlp_of pn)) (list_index self) (PenaltyOf self) of
        Inl e \<Rightarrow> Inl e
      | Inr g \<Rightarrow> Inr (put_objective_pool g (ocp_of pn) (nlp_of pn)))"
  by (auto simp: MultinodeObjective_add_penalty_to_pool_def
      objective_pool_def put_objective_pool_def Let_def
      split: option.splits sum.splits)

lemma MultinodePenalty_init_Inr:
  "MultinodePenalty_init a = Inr p \<Longrightarrow>
     quadratic p \<and> weight p = arg_weight a \<and> constraint_type p = INTERNAL \<and>
     first_node p = arg_first_node a \<and> second_node p = arg_second_node a \<and>
     list_index p = arg_list_index a"
  by (auto simp: MultinodePenalty_init_def Let_def split: if_splits prod.splits)

lemma reserve_slot_example_unassigned:
  "reserve_slot (-1) [ForeignPenalty 7] = (1, [ForeignPenalty 7, NoPenalty])"
  "reserve_slot (-1) [ForeignPenalty 7, NoPenalty, NoPenalty] =
     (1, [ForeignPenalty 7, NoPenalty, NoPenalty])"
  "reserve_slot (-1) [] = (0, [NoPenalty])"
  by (simp_all add: reserve_slot_def falsy_def)

lemma reserve_slot_example_assigned:
  "reserve_slot 3 [ForeignPenalty 7] = (3, [ForeignPenalty 7, NoPenalty, NoPenalty, NoPenalty])"
  "reserve_slot 1 [ForeignPenalty 7, NoPenalty, NoPenalty] =
     (1, [ForeignPenalty 7, NoPenalty, NoPenalty])"
  by (simp_all add: reserve_slot_nonneg numeral_eq_Suc)

lemma example_entry_fields:
  "weight constraint_entry = 0" "weight objective_entry = 5"
  "list_index constraint_entry = -1" "list_index objective_entry = -1"
  by (simp_all add: constraint_entry_def objective_entry_def example_penalty_def)

lemma example_pools:
  "constraint_pool (example_ocp g j) None = g"
  "objective_pool (example_ocp g j) None = j"
  "all_constraint_pools (example_ocp g j) None = (g, None)"
  "all_objective_pools (example_ocp g j) None = (j, None)"
  "put_constraint_pool g' (example_ocp g j) None = (example_ocp g' j, None)"
  "put_objective_pool j' (example_ocp g j) None = (example_ocp g j', None)"
  by (simp_all add: constraint_pool_def objective_pool_def all_constraint_pools_def
      all_objective_pools_def put_constraint_pool_def put_objective_pool_def example_ocp_def)

lemma add_penalty_to_pool_total:
  "add_penalty_to_pool self (pn # rest) =
     (let pool = target_pool self (ocp_of pn) (nlp_of pn);
          j = (if list_index self < 0 then int (length pool) + list_index self else list_index self)
      in if 0 \<le> j \<and> j < int (length pool)
         then Inr (if weight self = 0
                   then put_constraint_pool (pool[nat j := PenaltyOf self]) (ocp_of pn) (nlp_of pn)
                   else put_objective_pool (pool[nat j := PenaltyOf self]) (ocp_of pn) (nlp_of pn))
         else Inl IndexError)"
  by (simp add: add_penalty_to_pool_eq py_setitem_def Let_def)

lemma MultinodeObjective_add_penalty_to_pool_total:
  "MultinodeObjective_add_penalty_to_pool self (pn # rest) =
     (let pool = objective_pool (ocp_of pn) (nlp_of pn);
          j = (if list_index self < 0 then int (length pool) + list_index self else list_index self)
      in if 0 \<le> j \<and> j < int (length pool)
         then Inr (put_objective_pool (pool[nat j := PenaltyOf self]) (ocp_of pn) (nlp_of pn))
         else Inl IndexError)"
  by (simp add: MultinodeObjective_add_penalty_to_pool_eq py_setitem_def Let_def)

lemma put_constraint_pool_ex:
  "\<exists>o1 n1. put_constraint_pool g ocp nlp = (o1, n1) \<and> constraint_pool o1 n1 = g \<and>
     all_objective_pools o1 n1 = all_objective_pools ocp nlp"
  by (cases "put_constraint_pool g ocp nlp") (auto dest!: put_constraint_pool_get)

lemma put_objective_pool_ex:
  "\<exists>o1 n1. put_objective_pool g ocp nlp = (o1, n1) \<and> objective_pool o1 n1 = g \<and>
     all_constraint_pools o1 n1 = all_constraint_pools ocp nlp"
  by (cases "put_objective_pool g ocp nlp") (auto dest!: put_objective_pool_get)

lemma install_constraint:
  assumes "weight self = 0"
  shows "\<forall>pn rest.
         let pool = constraint_pool (ocp_of pn) (nlp_of pn);
             j = (if list_index self < 0 then int (length pool) + list_index self
                  else list_index self)
         in (0 \<le> j \<and> j < int (length pool) \<longrightarrow>
               (\<exists>o1 n1. add_penalty_to_pool self (pn # rest) = Inr (o1, n1) \<and>
                  (o1, n1) = put_constraint_pool (pool[nat j := PenaltyOf self]) (ocp_of pn) (nlp_of pn) \<and>
                  constraint_pool o1 n1 = pool[nat j := PenaltyOf self] \<and>
                  constraint_pool o1 n1 ! nat j = PenaltyOf self \<and>
                  all_objective_pools o1 n1 = all_objective_pools (ocp_of pn) (nlp_of pn))) \<and>
            (\<not> (0 \<le> j \<and> j < int (length pool)) \<longrightarrow>
               add_penalty_to_pool self (pn # rest) = Inl IndexError)"
proof (intro allI)
  fix pn rest
  show "let pool = constraint_pool (ocp_of pn) (nlp_of pn);
             j = (if list_index self < 0 then int (length pool) + list_index self
                  else list_index self)
         in (0 \<le> j \<and> j < int (length pool) \<longrightarrow>
               (\<exists>o1 n1. add_penalty_to_pool self (pn # rest) = Inr (o1, n1) \<and>
                  (o1, n1) = put_constraint_pool (pool[nat j := PenaltyOf self]) (ocp_of pn) (nlp_of pn) \<and>
                  constraint_pool o1 n1 = pool[nat j := PenaltyOf self] \<and>
                  constraint_pool o1 n1 ! nat j = PenaltyOf self \<and>
                  all_objective_pools o1 n1 = all_objective_pools (ocp_of pn) (nlp_of pn))) \<and>
            (\<not> (0 \<le> j \<and> j < int (length pool)) \<longrightarrow>
               add_penalty_to_pool self (pn # rest) = Inl IndexError)"
    using assms
      put_constraint_pool_ex [of "(constraint_pool (ocp_of pn) (nlp_of pn))
         [nat (if list_index self < 0
               then int (length (constraint_pool (ocp_of pn) (nlp_of pn))) + list_index self
               else list_index self) := PenaltyOf self]" "ocp_of pn" "nlp_of pn"]
    by (auto simp: add_penalty_to_pool_total target_pool_def Let_def)
qed

lemma clear_penalty_then_install_constraint:
  assumes w: "weight self = 0"
  shows "case clear_penalty self ocp nlp of (s1, o1, n1) \<Rightarrow>
           all_objective_pools o1 n1 = all_objective_pools ocp nlp \<and>
           (list_index s1, constraint_pool o1 n1) =
              reserve_slot (list_index self) (constraint_pool ocp nlp) \<and>
           (\<forall>rest. \<exists>o2 n2.
              add_penalty_to_pool s1 (\<lparr>ocp_of = o1, nlp_of = n1\<rparr> # rest) = Inr (o2, n2) \<and>
              constraint_pool o2 n2 = (constraint_pool o1 n1)[nat (list_index s1) := PenaltyOf s1] \<and>
              constraint_pool o2 n2 ! nat (list_index s1) = PenaltyOf s1 \<and>
              all_objective_pools o2 n2 = all_objective_pools ocp nlp)"
proof -
  obtain k g where r: "reserve_slot (list_index self) (constraint_pool ocp nlp) = (k, g)"
    by (cases "reserve_slot (list_index self) (constraint_pool ocp nlp)") auto
  obtain o1 n1 where p: "put_constraint_pool g ocp nlp = (o1, n1)"
    by (cases "put_constraint_pool g ocp nlp") auto
  note g = put_constraint_pool_get [OF p]
  note i = reserve_slot_index [OF r]
  let ?s = "self\<lparr>list_index := k\<rparr>"
  have c: "clear_penalty self ocp nlp = (?s, o1, n1)"
    using w r p by (simp add: clear_penalty_eq target_pool_def)
  have s: "weight ?s = 0" "list_index ?s = k" using w by simp_all
  have "\<exists>o2 n2.
          add_penalty_to_pool ?s (\<lparr>ocp_of = o1, nlp_of = n1\<rparr> # rest) = Inr (o2, n2) \<and>
          constraint_pool o2 n2 = g[nat k := PenaltyOf ?s] \<and>
          constraint_pool o2 n2 ! nat k = PenaltyOf ?s \<and>
          all_objective_pools o2 n2 = all_objective_pools ocp nlp" for rest
    using install_constraint [OF s(1), rule_format, of "\<lparr>ocp_of = o1, nlp_of = n1\<rparr>" rest] g i
    by (auto simp: Let_def)
  then show ?thesis
    unfolding c prod.case s(2) using g r by simp
qed

lemma install_objective:
  assumes "weight self \<noteq> 0"
  shows "\<forall>pn rest.
         let pool = objective_pool (ocp_of pn) (nlp_of pn);
             j = (if list_index self < 0 then int (length pool) + list_index self
                  else list_index self)
         in (0 \<le> j \<and> j < int (length pool) \<longrightarrow>
               (\<exists>o1 n1. add_penalty_to_pool self (pn # rest) = Inr (o1, n1) \<and>
                  (o1, n1) = put_objective_pool (pool[nat j := PenaltyOf self]) (ocp_of pn) (nlp_of pn) \<and>
                  objective_pool o1 n1 = pool[nat j := PenaltyOf self] \<and>
                  objective_pool o1 n1 ! nat j = PenaltyOf self \<and>
                  all_constraint_pools o1 n1 = all_constraint_pools (ocp_of pn) (nlp_of pn))) \<and>
            (\<not> (0 \<le> j \<and> j < int (length pool)) \<longrightarrow>
               add_penalty_to_pool self (pn # rest) = Inl IndexError)"
proof (intro allI)
  fix pn rest
  show "let pool = objective_pool (ocp_of pn) (nlp_of pn);
             j = (if list_index self < 0 then int (length pool) + list_index self
                  else list_index self)
         in (0 \<le> j \<and> j < int (length pool) \<longrightarrow>
               (\<exists>o1 n1. add_penalty_to_pool self (pn # rest) = Inr (o1, n1) \<and>
                  (o1, n1) = put_objective_pool (pool[nat j := PenaltyOf self]) (ocp_of pn) (nlp_of pn) \<and>
                  objective_pool o1 n1 = pool[nat j := PenaltyOf self] \<and>
                  objective_pool o1 n1 ! nat j = PenaltyOf self \<and>
                  all_constraint_pools o1 n1 = all_constraint_pools (ocp_of pn) (nlp_of pn))) \<and>
            (\<not> (0 \<le> j \<and> j < int (length pool)) \<longrightarrow>
               add_penalty_to_pool self (pn # rest) = Inl IndexError)"
    using assms
      put_objective_pool_ex [of "(objective_pool (ocp_of pn) (nlp_of pn))
         [nat (if list_index self < 0
               then int (length (objective_pool (ocp_of pn) (nlp_of pn))) + list_index self
               else list_index self) := PenaltyOf self]" "ocp_of pn" "nlp_of pn"]
    by (auto simp: add_penalty_to_pool_total target_pool_def Let_def)
qed

lemma clear_penalty_then_install_objective:
  assumes w: "weight self \<noteq> 0"
  shows "case clear_penalty self ocp nlp of (s1, o1, n1) \<Rightarrow>
           all_constraint_pools o1 n1 = all_constraint_pools ocp nlp \<and>
           (list_index s1, objective_pool o1 n1) =
              reserve_slot (list_index self) (objective_pool ocp nlp) \<and>
           (\<forall>rest. \<exists>o2 n2.
              add_penalty_to_pool s1 (\<lparr>ocp_of = o1, nlp_of = n1\<rparr> # rest) = Inr (o2, n2) \<and>
              objective_pool o2 n2 = (objective_pool o1 n1)[nat (list_index s1) := PenaltyOf s1] \<and>
              objective_pool o2 n2 ! nat (list_index s1) = PenaltyOf s1 \<and>
              all_constraint_pools o2 n2 = all_constraint_pools ocp nlp)"
proof -
  obtain k g where r: "reserve_slot (list_index self) (objective_pool ocp nlp) = (k, g)"
    by (cases "reserve_slot (list_index self) (objective_pool ocp nlp)") auto
  obtain o1 n1 where p: "put_objective_pool g ocp nlp = (o1, n1)"
    by (cases "put_objective_pool g ocp nlp") auto
  note g = put_objective_pool_get [OF p]
  note i = reserve_slot_index [OF r]
  let ?s = "self\<lparr>list_index := k\<rparr>"
  have c: "clear_penalty self ocp nlp = (?s, o1, n1)"
    using w r p by (simp add: clear_penalty_eq target_pool_def)
  have s: "weight ?s \<noteq> 0" "list_index ?s = k" using w by simp_all
  have "\<exists>o2 n2.
          add_penalty_to_pool ?s (\<lparr>ocp_of = o1, nlp_of = n1\<rparr> # rest) = Inr (o2, n2) \<and>
          objective_pool o2 n2 = g[nat k := PenaltyOf ?s] \<and>
          objective_pool o2 n2 ! nat k = PenaltyOf ?s \<and>
          all_constraint_pools o2 n2 = all_constraint_pools ocp nlp" for rest
    using install_objective [OF s(1), rule_format, of "\<lparr>ocp_of = o1, nlp_of = n1\<rparr>" rest] g i
    by (auto simp: Let_def)
  then show ?thesis
    unfolding c prod.case s(2) using g r by simp
qed

lemma install_examples:
  "add_penalty_to_pool (constraint_entry\<lparr>list_index := 1\<rparr>)
       [\<lparr>ocp_of = example_ocp [ForeignPenalty 7, NoPenalty] [], nlp_of = None\<rparr>] =
     Inr (example_ocp [ForeignPenalty 7, PenaltyOf (constraint_entry\<lparr>list_index := 1\<rparr>)] [], None)"
  "add_penalty_to_pool constraint_entry
       [phase_node (example_ocp [NoPenalty] [NoPenalty])
          (example_phase [ForeignPenalty 7, NoPenalty] [NoPenalty])] =
     Inr (example_ocp [NoPenalty] [NoPenalty],
          Some (example_phase [ForeignPenalty 7, PenaltyOf constraint_entry] [NoPenalty]))"
  "add_penalty_to_pool constraint_entry [problem_node (example_ocp [] [NoPenalty])] =
     Inl IndexError"
  "add_penalty_to_pool (objective_entry\<lparr>list_index := 0\<rparr>)
       [\<lparr>ocp_of = example_ocp [ForeignPenalty 7] [NoPenalty], nlp_of = None\<rparr>] =
     Inr (example_ocp [ForeignPenalty 7] [PenaltyOf (objective_entry\<lparr>list_index := 0\<rparr>)], None)"
  "add_penalty_to_pool objective_entry
       [phase_node (example_ocp [NoPenalty] [NoPenalty])
          (example_phase [NoPenalty] [ForeignPenalty 7, NoPenalty])] =
     Inr (example_ocp [NoPenalty] [NoPenalty],
          Some (example_phase [NoPenalty] [ForeignPenalty 7, PenaltyOf objective_entry]))"
  "add_penalty_to_pool objective_entry [problem_node (example_ocp [NoPenalty] [])] =
     Inl IndexError"
  by (simp_all add: add_penalty_to_pool_def py_setitem_def Let_def problem_node_def
      phase_node_def example_phase_def example_nlp_def example_ocp_def example_entry_fields)

text \<open>
  C3. For every \<open>MultinodePenalty\<close>: when its weight is 0, \<open>clear_penalty\<close> reserves
  the slot in the constraint pool and no objective pool changes, and
  \<open>_add_penalty_to_pool\<close>, called on the result, returns with the entry stored at the
  reserved slot of the constraint pool. On any node \<open>_add_penalty_to_pool\<close> returns
  exactly when \<open>list_index\<close> is an index of the constraint pool (a negative one
  counting from the end), then with the entry stored at that index of the constraint
  pool and every objective pool unchanged, and raises \<open>IndexError\<close> otherwise and on
  an empty \<open>all_pn\<close>. When the weight is not 0 the same holds with the objective
  pool in the place of the constraint pool, and no constraint pool changes. After
  construction the flag \<open>quadratic\<close> is true.
\<close>

theorem weight_routing:
  "(weight self = 0 \<longrightarrow>
      (case clear_penalty self ocp nlp of (s1, o1, n1) \<Rightarrow>
         all_objective_pools o1 n1 = all_objective_pools ocp nlp \<and>
         (list_index s1, constraint_pool o1 n1) =
            reserve_slot (list_index self) (constraint_pool ocp nlp) \<and>
         (\<forall>rest. \<exists>o2 n2.
            add_penalty_to_pool s1 (\<lparr>ocp_of = o1, nlp_of = n1\<rparr> # rest) = Inr (o2, n2) \<and>
            constraint_pool o2 n2 = (constraint_pool o1 n1)[nat (list_index s1) := PenaltyOf s1] \<and>
            constraint_pool o2 n2 ! nat (list_index s1) = PenaltyOf s1 \<and>
            all_objective_pools o2 n2 = all_objective_pools ocp nlp)) \<and>
      (\<forall>pn rest.
         let pool = constraint_pool (ocp_of pn) (nlp_of pn);
             j = (if list_index self < 0 then int (length pool) + list_index self
                  else list_index self)
         in (0 \<le> j \<and> j < int (length pool) \<longrightarrow>
               (\<exists>o1 n1. add_penalty_to_pool self (pn # rest) = Inr (o1, n1) \<and>
                  (o1, n1) = put_constraint_pool (pool[nat j := PenaltyOf self]) (ocp_of pn) (nlp_of pn) \<and>
                  constraint_pool o1 n1 = pool[nat j := PenaltyOf self] \<and>
                  constraint_pool o1 n1 ! nat j = PenaltyOf self \<and>
                  all_objective_pools o1 n1 = all_objective_pools (ocp_of pn) (nlp_of pn))) \<and>
            (\<not> (0 \<le> j \<and> j < int (length pool)) \<longrightarrow>
               add_penalty_to_pool self (pn # rest) = Inl IndexError))) \<and>
   (weight self \<noteq> 0 \<longrightarrow>
      (case clear_penalty self ocp nlp of (s1, o1, n1) \<Rightarrow>
         all_constraint_pools o1 n1 = all_constraint_pools ocp nlp \<and>
         (list_index s1, objective_pool o1 n1) =
            reserve_slot (list_index self) (objective_pool ocp nlp) \<and>
         (\<forall>rest. \<exists>o2 n2.
            add_penalty_to_pool s1 (\<lparr>ocp_of = o1, nlp_of = n1\<rparr> # rest) = Inr (o2, n2) \<and>
            objective_pool o2 n2 = (objective_pool o1 n1)[nat (list_index s1) := PenaltyOf s1] \<and>
            objective_pool o2 n2 ! nat (list_index s1) = PenaltyOf s1 \<and>
            all_constraint_pools o2 n2 = all_constraint_pools ocp nlp)) \<and>
      (\<forall>pn rest.
         let pool = objective_pool (ocp_of pn) (nlp_of pn);
             j = (if list_index self < 0 then int (length pool) + list_index self
                  else list_index self)
         in (0 \<le> j \<and> j < int (length pool) \<longrightarrow>
               (\<exists>o1 n1. add_penalty_to_pool self (pn # rest) = Inr (o1, n1) \<and>
                  (o1, n1) = put_objective_pool (pool[nat j := PenaltyOf self]) (ocp_of pn) (nlp_of pn) \<and>
                  objective_pool o1 n1 = pool[nat j := PenaltyOf self] \<and>
                  objective_pool o1 n1 ! nat j = PenaltyOf self \<and>
                  all_constraint_pools o1 n1 = all_constraint_pools (ocp_of pn) (nlp_of pn))) \<and>
            (\<not> (0 \<le> j \<and> j < int (length pool)) \<longrightarrow>
               add_penalty_to_pool self (pn # rest) = Inl IndexError))) \<and>
   add_penalty_to_pool self [] = Inl IndexError \<and>
   (\<forall>a p. MultinodePenalty_init a = Inr p \<longrightarrow> quadratic p \<and> weight p = arg_weight a)"
proof (intro conjI impI)
  assume w: "weight self = 0"
  from clear_penalty_then_install_constraint [OF w]
  show "case clear_penalty self ocp nlp of (s1, o1, n1) \<Rightarrow>
         all_objective_pools o1 n1 = all_objective_pools ocp nlp \<and>
         (list_index s1, constraint_pool o1 n1) =
            reserve_slot (list_index self) (constraint_pool ocp nlp) \<and>
         (\<forall>rest. \<exists>o2 n2.
            add_penalty_to_pool s1 (\<lparr>ocp_of = o1, nlp_of = n1\<rparr> # rest) = Inr (o2, n2) \<and>
            constraint_pool o2 n2 = (constraint_pool o1 n1)[nat (list_index s1) := PenaltyOf s1] \<and>
            constraint_pool o2 n2 ! nat (list_index s1) = PenaltyOf s1 \<and>
            all_objective_pools o2 n2 = all_objective_pools ocp nlp)" .
  from install_constraint [OF w]
  show "\<forall>pn rest.
         let pool = constraint_pool (ocp_of pn) (nlp_of pn);
             j = (if list_index self < 0 then int (length pool) + list_index self
                  else list_index self)
         in (0 \<le> j \<and> j < int (length pool) \<longrightarrow>
               (\<exists>o1 n1. add_penalty_to_pool self (pn # rest) = Inr (o1, n1) \<and>
                  (o1, n1) = put_constraint_pool (pool[nat j := PenaltyOf self]) (ocp_of pn) (nlp_of pn) \<and>
                  constraint_pool o1 n1 = pool[nat j := PenaltyOf self] \<and>
                  constraint_pool o1 n1 ! nat j = PenaltyOf self \<and>
                  all_objective_pools o1 n1 = all_objective_pools (ocp_of pn) (nlp_of pn))) \<and>
            (\<not> (0 \<le> j \<and> j < int (length pool)) \<longrightarrow>
               add_penalty_to_pool self (pn # rest) = Inl IndexError)" .
next
  assume w: "weight self \<noteq> 0"
  from clear_penalty_then_install_objective [OF w]
  show "case clear_penalty self ocp nlp of (s1, o1, n1) \<Rightarrow>
         all_constraint_pools o1 n1 = all_constraint_pools ocp nlp \<and>
         (list_index s1, objective_pool o1 n1) =
            reserve_slot (list_index self) (objective_pool ocp nlp) \<and>
         (\<forall>rest. \<exists>o2 n2.
            add_penalty_to_pool s1 (\<lparr>ocp_of = o1, nlp_of = n1\<rparr> # rest) = Inr (o2, n2) \<and>
            objective_pool o2 n2 = (objective_pool o1 n1)[nat (list_index s1) := PenaltyOf s1] \<and>
            objective_pool o2 n2 ! nat (list_index s1) = PenaltyOf s1 \<and>
            all_constraint_pools o2 n2 = all_constraint_pools ocp nlp)" .
  from install_objective [OF w]
  show "\<forall>pn rest.
         let pool = objective_pool (ocp_of pn) (nlp_of pn);
             j = (if list_index self < 0 then int (length pool) + list_index self
                  else list_index self)
         in (0 \<le> j \<and> j < int (length pool) \<longrightarrow>
               (\<exists>o1 n1. add_penalty_to_pool self (pn # rest) = Inr (o1, n1) \<and>
                  (o1, n1) = put_objective_pool (pool[nat j := PenaltyOf self]) (ocp_of pn) (nlp_of pn) \<and>
                  objective_pool o1 n1 = pool[nat j := PenaltyOf self] \<and>
                  objective_pool o1 n1 ! nat j = PenaltyOf self \<and>
                  all_constraint_pools o1 n1 = all_constraint_pools (ocp_of pn) (nlp_of pn))) \<and>
            (\<not> (0 \<le> j \<and> j < int (length pool)) \<longrightarrow>
               add_penalty_to_pool self (pn # rest) = Inl IndexError)" .
next
  show "add_penalty_to_pool self [] = Inl IndexError"
    by (simp add: add_penalty_to_pool_def)
next
  show "\<forall>a p. MultinodePenalty_init a = Inr p \<longrightarrow> quadratic p \<and> weight p = arg_weight a"
    by (simp add: MultinodePenalty_init_Inr)
qed

theorem weight_routing_witness:
  "weight constraint_entry = 0 \<and>
   (case clear_penalty constraint_entry (example_ocp [ForeignPenalty 7] []) None of
      (s1, o1, n1) \<Rightarrow>
        all_objective_pools o1 n1 = ([], None) \<and>
        (list_index s1, constraint_pool o1 n1) = (1, [ForeignPenalty 7, NoPenalty]) \<and>
        add_penalty_to_pool s1 [\<lparr>ocp_of = o1, nlp_of = n1\<rparr>] =
          Inr (example_ocp
                 [ForeignPenalty 7, PenaltyOf (constraint_entry\<lparr>list_index := 1\<rparr>)] [], None)) \<and>
   add_penalty_to_pool constraint_entry
       [phase_node (example_ocp [NoPenalty] [NoPenalty])
          (example_phase [ForeignPenalty 7, NoPenalty] [NoPenalty])] =
     Inr (example_ocp [NoPenalty] [NoPenalty],
          Some (example_phase [ForeignPenalty 7, PenaltyOf constraint_entry] [NoPenalty])) \<and>
   add_penalty_to_pool constraint_entry [problem_node (example_ocp [] [NoPenalty])] =
     Inl IndexError \<and>
   weight objective_entry \<noteq> 0 \<and>
   (case clear_penalty objective_entry (example_ocp [ForeignPenalty 7] []) None of
      (s1, o1, n1) \<Rightarrow>
        all_constraint_pools o1 n1 = ([ForeignPenalty 7], None) \<and>
        (list_index s1, objective_pool o1 n1) = (0, [NoPenalty]) \<and>
        add_penalty_to_pool s1 [\<lparr>ocp_of = o1, nlp_of = n1\<rparr>] =
          Inr (example_ocp
                 [ForeignPenalty 7] [PenaltyOf (objective_entry\<lparr>list_index := 0\<rparr>)], None)) \<and>
   add_penalty_to_pool objective_entry
       [phase_node (example_ocp [NoPenalty] [NoPenalty])
          (example_phase [NoPenalty] [ForeignPenalty 7, NoPenalty])] =
     Inr (example_ocp [NoPenalty] [NoPenalty],
          Some (example_phase [NoPenalty] [ForeignPenalty 7, PenaltyOf objective_entry])) \<and>
   add_penalty_to_pool objective_entry [problem_node (example_ocp [NoPenalty] [])] =
     Inl IndexError \<and>
   MultinodePenalty_init (example_args (PyInt 3) (NodeMarker START) 5) =
     Inr (example_penalty (PyInt 3) (NodeMarker START) 5) \<and>
   quadratic (example_penalty (PyInt 3) (NodeMarker START) 5)"
  using weight_routing [of constraint_entry "example_ocp [ForeignPenalty 7] []" None]
    weight_routing [of objective_entry "example_ocp [ForeignPenalty 7] []" None]
  by (simp add: example_entry_fields example_pools reserve_slot_example_unassigned
      clear_penalty_eq target_pool_def install_examples MultinodePenalty_init_example
      example_penalty_def)

text \<open>
  C5. Slot reservation is idempotent: after \<open>clear_penalty\<close>, a second call in
  succession assigns the same \<open>list_index\<close>; after each of the two calls that index lies
  in the target pool and its slot is empty. The second call changes nothing at all.
\<close>

theorem clear_penalty_idempotent:
  "case clear_penalty self ocp nlp of (s1, o1, n1) \<Rightarrow>
     (case clear_penalty s1 o1 n1 of (s2, o2, n2) \<Rightarrow>
        list_index s2 = list_index s1 \<and> 0 \<le> list_index s1 \<and>
        nat (list_index s1) < length (target_pool s1 o1 n1) \<and>
        target_pool s1 o1 n1 ! nat (list_index s1) = NoPenalty \<and>
        nat (list_index s2) < length (target_pool s2 o2 n2) \<and>
        target_pool s2 o2 n2 ! nat (list_index s2) = NoPenalty \<and>
        (s2, o2, n2) = (s1, o1, n1))"
proof -
  obtain k g where r: "reserve_slot (list_index self) (target_pool self ocp nlp) = (k, g)"
    by (cases "reserve_slot (list_index self) (target_pool self ocp nlp)") auto
  obtain s1 o1 n1 where c: "clear_penalty self ocp nlp = (s1, o1, n1)"
    by (cases "clear_penalty self ocp nlp") auto
  from c r have s1: "list_index s1 = k" "weight s1 = weight self"
    by (auto simp: clear_penalty_eq)
  from c r have t: "target_pool s1 o1 n1 = g"
    by (auto simp: clear_penalty_eq target_pool_def
        dest: put_constraint_pool_get put_objective_pool_get split: if_splits)
  from reserve_slot_index [OF r] have i: "0 \<le> k" "nat k < length g" "g ! nat k = NoPenalty"
    by auto
  have again: "reserve_slot (list_index s1) (target_pool s1 o1 n1) = (k, g)"
    using reserve_slot_again [OF r] s1 t by simp
  have same: "clear_penalty s1 o1 n1 = (s1, o1, n1)"
    using again s1 t
    by (auto simp: clear_penalty_eq target_pool_def put_constraint_pool_same
        put_objective_pool_same split: if_splits)
  show ?thesis
    using c same s1 t i by simp
qed

theorem clear_penalty_idempotent_witness:
  "clear_penalty constraint_entry
     (example_ocp [ForeignPenalty 7, NoPenalty, NoPenalty] []) None =
     (constraint_entry\<lparr>list_index := 1\<rparr>,
      example_ocp [ForeignPenalty 7, NoPenalty, NoPenalty] [], None) \<and>
   clear_penalty (constraint_entry\<lparr>list_index := 1\<rparr>)
     (example_ocp [ForeignPenalty 7, NoPenalty, NoPenalty] []) None =
     (constraint_entry\<lparr>list_index := 1\<rparr>,
      example_ocp [ForeignPenalty 7, NoPenalty, NoPenalty] [], None)"
  using clear_penalty_idempotent
    [of constraint_entry "example_ocp [ForeignPenalty 7, NoPenalty, NoPenalty] []" None]
  by (simp add: clear_penalty_eq target_pool_def example_entry_fields example_pools
      reserve_slot_example_unassigned reserve_slot_example_assigned)

text \<open>
  C6. \<open>clear_penalty\<close> never makes the target pool shorter, and leaves the pools of the
  other kind as they are. When \<open>list_index = k\<close> with \<open>0 \<le> k\<close> and the target pool has
  fewer than \<open>k + 1\<close> slots, the pool afterwards is the old pool followed by empty
  slots, has exactly \<open>k + 1\<close> slots, and slot \<open>k\<close> is empty.
\<close>

theorem clear_penalty_pool_growth:
  "case clear_penalty self ocp nlp of (s1, o1, n1) \<Rightarrow>
     length (target_pool self ocp nlp) \<le> length (target_pool s1 o1 n1) \<and>
     (if weight self = 0 then all_objective_pools o1 n1 = all_objective_pools ocp nlp
      else all_constraint_pools o1 n1 = all_constraint_pools ocp nlp) \<and>
     (0 \<le> list_index self \<and> int (length (target_pool self ocp nlp)) < list_index self + 1 \<longrightarrow>
        list_index s1 = list_index self \<and>
        target_pool s1 o1 n1 =
          target_pool self ocp nlp @
            replicate (nat (list_index self + 1) - length (target_pool self ocp nlp)) NoPenalty \<and>
        int (length (target_pool s1 o1 n1)) = list_index self + 1 \<and>
        target_pool s1 o1 n1 ! nat (list_index self) = NoPenalty)"
proof -
  obtain k g where r: "reserve_slot (list_index self) (target_pool self ocp nlp) = (k, g)"
    by (cases "reserve_slot (list_index self) (target_pool self ocp nlp)") auto
  obtain s1 o1 n1 where c: "clear_penalty self ocp nlp = (s1, o1, n1)"
    by (cases "clear_penalty self ocp nlp") auto
  from c r have s1: "list_index s1 = k" "weight s1 = weight self"
    by (auto simp: clear_penalty_eq)
  from c r have t: "target_pool s1 o1 n1 = g"
    by (auto simp: clear_penalty_eq target_pool_def
        dest: put_constraint_pool_get put_objective_pool_get split: if_splits)
  from c r have f: "if weight self = 0 then all_objective_pools o1 n1 = all_objective_pools ocp nlp
      else all_constraint_pools o1 n1 = all_constraint_pools ocp nlp"
    by (auto simp: clear_penalty_eq
        dest: put_constraint_pool_get put_objective_pool_get split: if_splits)
  from reserve_slot_index [OF r] have i: "0 \<le> k" "nat k < length g" "g ! nat k = NoPenalty"
    "length (target_pool self ocp nlp) \<le> length g"
    by auto
  have grow: "k = list_index self \<and>
        g = target_pool self ocp nlp @
            replicate (nat (list_index self + 1) - length (target_pool self ocp nlp)) NoPenalty \<and>
        int (length g) = list_index self + 1 \<and> g ! nat (list_index self) = NoPenalty"
    if h: "0 \<le> list_index self" "int (length (target_pool self ocp nlp)) < list_index self + 1"
  proof -
    from reserve_slot_grow [OF h] r have e: "k = list_index self"
      "g = target_pool self ocp nlp @
            replicate (nat (list_index self + 1) - length (target_pool self ocp nlp)) NoPenalty"
      by auto
    from e(2) h have "int (length g) = list_index self + 1" by auto
    with e i show ?thesis by simp
  qed
  show ?thesis
    unfolding c prod.case s1(1) t using i(4) f grow by blast
qed

theorem clear_penalty_pool_growth_witness:
  "0 \<le> list_index (constraint_entry\<lparr>list_index := 3\<rparr>) \<and>
   int (length (target_pool (constraint_entry\<lparr>list_index := 3\<rparr>)
                  (example_ocp [ForeignPenalty 7] []) None))
     < list_index (constraint_entry\<lparr>list_index := 3\<rparr>) + 1 \<and>
   clear_penalty (constraint_entry\<lparr>list_index := 3\<rparr>) (example_ocp [ForeignPenalty 7] []) None =
     (constraint_entry\<lparr>list_index := 3\<rparr>,
      example_ocp [ForeignPenalty 7, NoPenalty, NoPenalty, NoPenalty] [], None)"
  using clear_penalty_pool_growth
    [of "constraint_entry\<lparr>list_index := 3\<rparr>" "example_ocp [ForeignPenalty 7] []" None]
  by (simp add: clear_penalty_eq target_pool_def example_entry_fields example_pools
      reserve_slot_example_assigned)

lemma put_objective_pool_twice:
  "put_objective_pool b ocp nlp = (o2, n2) \<Longrightarrow>
     put_objective_pool a o2 n2 = put_objective_pool a ocp nlp"
  by (auto simp: put_objective_pool_def split: option.splits)

lemma MultinodeObjective_install:
  "\<forall>pn rest.
      let pool = objective_pool (ocp_of pn) (nlp_of pn);
          j = (if list_index self < 0 then int (length pool) + list_index self
               else list_index self)
      in (0 \<le> j \<and> j < int (length pool) \<longrightarrow>
            (\<exists>o1 n1. MultinodeObjective_add_penalty_to_pool self (pn # rest) = Inr (o1, n1) \<and>
               (o1, n1) = put_objective_pool (pool[nat j := PenaltyOf self]) (ocp_of pn) (nlp_of pn) \<and>
               objective_pool o1 n1 = pool[nat j := PenaltyOf self] \<and>
               objective_pool o1 n1 ! nat j = PenaltyOf self \<and>
               all_constraint_pools o1 n1 = all_constraint_pools (ocp_of pn) (nlp_of pn))) \<and>
         (\<not> (0 \<le> j \<and> j < int (length pool)) \<longrightarrow>
            MultinodeObjective_add_penalty_to_pool self (pn # rest) = Inl IndexError)"
proof (intro allI)
  fix pn rest
  show "let pool = objective_pool (ocp_of pn) (nlp_of pn);
          j = (if list_index self < 0 then int (length pool) + list_index self
               else list_index self)
      in (0 \<le> j \<and> j < int (length pool) \<longrightarrow>
            (\<exists>o1 n1. MultinodeObjective_add_penalty_to_pool self (pn # rest) = Inr (o1, n1) \<and>
               (o1, n1) = put_objective_pool (pool[nat j := PenaltyOf self]) (ocp_of pn) (nlp_of pn) \<and>
               objective_pool o1 n1 = pool[nat j := PenaltyOf self] \<and>
               objective_pool o1 n1 ! nat j = PenaltyOf self \<and>
               all_constraint_pools o1 n1 = all_constraint_pools (ocp_of pn) (nlp_of pn))) \<and>
         (\<not> (0 \<le> j \<and> j < int (length pool)) \<longrightarrow>
            MultinodeObjective_add_penalty_to_pool self (pn # rest) = Inl IndexError)"
    using
      put_objective_pool_ex [of "(objective_pool (ocp_of pn) (nlp_of pn))
         [nat (if list_index self < 0
               then int (length (objective_pool (ocp_of pn) (nlp_of pn))) + list_index self
               else list_index self) := PenaltyOf self]" "ocp_of pn" "nlp_of pn"]
    by (auto simp: MultinodeObjective_add_penalty_to_pool_total Let_def)
qed

lemma MultinodeObjective_clear_penalty_then_install:
  "case MultinodeObjective_clear_penalty self ocp nlp of (s1, o1, n1) \<Rightarrow>
      all_constraint_pools o1 n1 = all_constraint_pools ocp nlp \<and>
      (list_index s1, objective_pool o1 n1) =
         reserve_slot (list_index self) (objective_pool ocp nlp) \<and>
      (\<forall>rest. \<exists>o2 n2.
         MultinodeObjective_add_penalty_to_pool s1 (\<lparr>ocp_of = o1, nlp_of = n1\<rparr> # rest)
           = Inr (o2, n2) \<and>
         objective_pool o2 n2 = (objective_pool o1 n1)[nat (list_index s1) := PenaltyOf s1] \<and>
         objective_pool o2 n2 ! nat (list_index s1) = PenaltyOf s1 \<and>
         all_constraint_pools o2 n2 = all_constraint_pools ocp nlp)"
proof -
  obtain k g where r: "reserve_slot (list_index self) (objective_pool ocp nlp) = (k, g)"
    by (cases "reserve_slot (list_index self) (objective_pool ocp nlp)") auto
  obtain o1 n1 where p: "put_objective_pool g ocp nlp = (o1, n1)"
    by (cases "put_objective_pool g ocp nlp") auto
  note g = put_objective_pool_get [OF p]
  note i = reserve_slot_index [OF r]
  let ?s = "self\<lparr>list_index := k\<rparr>"
  have c: "MultinodeObjective_clear_penalty self ocp nlp = (?s, o1, n1)"
    using r p by (simp add: MultinodeObjective_clear_penalty_eq)
  have s: "list_index ?s = k" by simp
  have "\<exists>o2 n2.
          MultinodeObjective_add_penalty_to_pool ?s (\<lparr>ocp_of = o1, nlp_of = n1\<rparr> # rest)
            = Inr (o2, n2) \<and>
          objective_pool o2 n2 = g[nat k := PenaltyOf ?s] \<and>
          objective_pool o2 n2 ! nat k = PenaltyOf ?s \<and>
          all_constraint_pools o2 n2 = all_constraint_pools ocp nlp" for rest
    using MultinodeObjective_install
      [where self = ?s, rule_format, of "\<lparr>ocp_of = o1, nlp_of = n1\<rparr>" rest] g i
    by (auto simp: Let_def)
  then show ?thesis
    unfolding c prod.case s using g r by simp
qed

lemma MultinodeObjective_add_penalty_to_pool_coincides:
  assumes w: "w \<noteq> 0"
  shows "\<forall>pn rest.
         case add_penalty_to_pool (self\<lparr>weight := w\<rparr>) (pn # rest) of
           Inl e \<Rightarrow> MultinodeObjective_add_penalty_to_pool self (pn # rest) = Inl e
         | Inr (o2, n2) \<Rightarrow>
             (\<exists>j < length (objective_pool (ocp_of pn) (nlp_of pn)).
                objective_pool o2 n2 =
                  (objective_pool (ocp_of pn) (nlp_of pn))[j := PenaltyOf (self\<lparr>weight := w\<rparr>)] \<and>
                all_constraint_pools o2 n2 = all_constraint_pools (ocp_of pn) (nlp_of pn) \<and>
                MultinodeObjective_add_penalty_to_pool self (pn # rest) =
                  Inr (put_objective_pool
                         ((objective_pool (ocp_of pn) (nlp_of pn))[j := PenaltyOf self]) o2 n2))"
proof (intro allI)
  fix pn :: PenaltyNodeList and rest :: "PenaltyNodeList list"
  let ?pool = "objective_pool (ocp_of pn) (nlp_of pn)"
  let ?j = "if list_index self < 0 then int (length ?pool) + list_index self else list_index self"
  let ?t = "self\<lparr>weight := w\<rparr>"
  show "case add_penalty_to_pool (self\<lparr>weight := w\<rparr>) (pn # rest) of
           Inl e \<Rightarrow> MultinodeObjective_add_penalty_to_pool self (pn # rest) = Inl e
         | Inr (o2, n2) \<Rightarrow>
             (\<exists>j < length (objective_pool (ocp_of pn) (nlp_of pn)).
                objective_pool o2 n2 =
                  (objective_pool (ocp_of pn) (nlp_of pn))[j := PenaltyOf (self\<lparr>weight := w\<rparr>)] \<and>
                all_constraint_pools o2 n2 = all_constraint_pools (ocp_of pn) (nlp_of pn) \<and>
                MultinodeObjective_add_penalty_to_pool self (pn # rest) =
                  Inr (put_objective_pool
                         ((objective_pool (ocp_of pn) (nlp_of pn))[j := PenaltyOf self]) o2 n2))"
  proof (cases "0 \<le> ?j \<and> ?j < int (length ?pool)")
    case False
    have a: "add_penalty_to_pool ?t (pn # rest) = Inl IndexError"
      using False w
      by (auto simp: add_penalty_to_pool_total target_pool_def Let_def split: if_splits)
    have m: "MultinodeObjective_add_penalty_to_pool self (pn # rest) = Inl IndexError"
      using False
      by (auto simp: MultinodeObjective_add_penalty_to_pool_total Let_def split: if_splits)
    show ?thesis
      unfolding a sum.case by (rule m)
  next
    case True
    obtain o2 n2 where p: "put_objective_pool (?pool[nat ?j := PenaltyOf ?t]) (ocp_of pn) (nlp_of pn) = (o2, n2)"
      by (cases "put_objective_pool (?pool[nat ?j := PenaltyOf ?t]) (ocp_of pn) (nlp_of pn)") auto
    have a: "add_penalty_to_pool ?t (pn # rest) = Inr (o2, n2)"
      using True p w
      by (auto simp: add_penalty_to_pool_total target_pool_def Let_def split: if_splits)
    have m: "MultinodeObjective_add_penalty_to_pool self (pn # rest) =
               Inr (put_objective_pool (?pool[nat ?j := PenaltyOf self]) o2 n2)"
      using True
      by (auto simp: MultinodeObjective_add_penalty_to_pool_total Let_def
          put_objective_pool_twice [OF p] split: if_splits)
    have l: "nat ?j < length ?pool" using True by linarith
    show ?thesis
      unfolding a sum.case prod.case
      using put_objective_pool_get [OF p] m l by blast
  qed
qed

lemma MultinodeObjective_install_examples:
  "MultinodeObjective_add_penalty_to_pool (constraint_entry\<lparr>list_index := 0\<rparr>)
       [\<lparr>ocp_of = example_ocp [ForeignPenalty 7] [NoPenalty], nlp_of = None\<rparr>] =
     Inr (example_ocp [ForeignPenalty 7] [PenaltyOf (constraint_entry\<lparr>list_index := 0\<rparr>)], None)"
  "MultinodeObjective_add_penalty_to_pool constraint_entry
       [phase_node (example_ocp [NoPenalty] [NoPenalty])
          (example_phase [NoPenalty] [ForeignPenalty 7, NoPenalty])] =
     Inr (example_ocp [NoPenalty] [NoPenalty],
          Some (example_phase [NoPenalty] [ForeignPenalty 7, PenaltyOf constraint_entry]))"
  "MultinodeObjective_add_penalty_to_pool constraint_entry
       [problem_node (example_ocp [NoPenalty] [])] = Inl IndexError"
  "MultinodeObjective_add_penalty_to_pool objective_entry
       [phase_node (example_ocp [NoPenalty] [NoPenalty])
          (example_phase [NoPenalty] [ForeignPenalty 7, NoPenalty])] =
     Inr (example_ocp [NoPenalty] [NoPenalty],
          Some (example_phase [NoPenalty] [ForeignPenalty 7, PenaltyOf objective_entry]))"
  by (simp_all add: MultinodeObjective_add_penalty_to_pool_def py_setitem_def Let_def
      problem_node_def phase_node_def example_phase_def example_nlp_def example_ocp_def
      example_entry_fields)

lemma install_examples_weight:
  "add_penalty_to_pool constraint_entry
       [phase_node (example_ocp [NoPenalty] [NoPenalty])
          (example_phase [NoPenalty] [ForeignPenalty 7, NoPenalty])] =
     Inr (example_ocp [NoPenalty] [NoPenalty],
          Some (example_phase [PenaltyOf constraint_entry] [ForeignPenalty 7, NoPenalty]))"
  "add_penalty_to_pool (constraint_entry\<lparr>weight := 5\<rparr>)
       [phase_node (example_ocp [NoPenalty] [NoPenalty])
          (example_phase [NoPenalty] [ForeignPenalty 7, NoPenalty])] =
     Inr (example_ocp [NoPenalty] [NoPenalty],
          Some (example_phase [NoPenalty]
                  [ForeignPenalty 7, PenaltyOf (constraint_entry\<lparr>weight := 5\<rparr>)]))"
  by (simp_all add: add_penalty_to_pool_def py_setitem_def Let_def
      problem_node_def phase_node_def example_phase_def example_nlp_def example_ocp_def
      example_entry_fields)

text \<open>
  C7. For every \<open>MultinodeObjective\<close> and every weight, 0 included:
  \<open>clear_penalty\<close> reserves the slot in the objective pool and
  \<open>_add_penalty_to_pool\<close>, called on the result, returns with the entry stored at the
  reserved slot of the objective pool; on any node \<open>_add_penalty_to_pool\<close> returns
  exactly when \<open>list_index\<close> is an index of the objective pool, then with the entry
  stored at that index, and raises \<open>IndexError\<close> otherwise and on an empty
  \<open>all_pn\<close>; no constraint pool ever changes. The two methods are the methods of
  \<open>MultinodePenalty\<close> when the weight is not 0; and whatever the weight, they act
  as the methods of \<open>MultinodePenalty\<close> do for the same entry with a weight \<open>w\<close>
  that is not 0: the same reservation, the same error, the same slot of the objective
  pool written, the stored entry being the object itself.
\<close>

theorem MultinodeObjective_objective_pool_only:
  "(case MultinodeObjective_clear_penalty self ocp nlp of (s1, o1, n1) \<Rightarrow>
      all_constraint_pools o1 n1 = all_constraint_pools ocp nlp \<and>
      (list_index s1, objective_pool o1 n1) =
         reserve_slot (list_index self) (objective_pool ocp nlp) \<and>
      (\<forall>rest. \<exists>o2 n2.
         MultinodeObjective_add_penalty_to_pool s1 (\<lparr>ocp_of = o1, nlp_of = n1\<rparr> # rest)
           = Inr (o2, n2) \<and>
         objective_pool o2 n2 = (objective_pool o1 n1)[nat (list_index s1) := PenaltyOf s1] \<and>
         objective_pool o2 n2 ! nat (list_index s1) = PenaltyOf s1 \<and>
         all_constraint_pools o2 n2 = all_constraint_pools ocp nlp)) \<and>
   (\<forall>pn rest.
      let pool = objective_pool (ocp_of pn) (nlp_of pn);
          j = (if list_index self < 0 then int (length pool) + list_index self
               else list_index self)
      in (0 \<le> j \<and> j < int (length pool) \<longrightarrow>
            (\<exists>o1 n1. MultinodeObjective_add_penalty_to_pool self (pn # rest) = Inr (o1, n1) \<and>
               (o1, n1) = put_objective_pool (pool[nat j := PenaltyOf self]) (ocp_of pn) (nlp_of pn) \<and>
               objective_pool o1 n1 = pool[nat j := PenaltyOf self] \<and>
               objective_pool o1 n1 ! nat j = PenaltyOf self \<and>
               all_constraint_pools o1 n1 = all_constraint_pools (ocp_of pn) (nlp_of pn))) \<and>
         (\<not> (0 \<le> j \<and> j < int (length pool)) \<longrightarrow>
            MultinodeObjective_add_penalty_to_pool self (pn # rest) = Inl IndexError)) \<and>
   MultinodeObjective_add_penalty_to_pool self [] = Inl IndexError \<and>
   (weight self \<noteq> 0 \<longrightarrow>
      MultinodeObjective_clear_penalty self ocp nlp = clear_penalty self ocp nlp \<and>
      MultinodeObjective_add_penalty_to_pool self all_pn = add_penalty_to_pool self all_pn) \<and>
   (w \<noteq> 0 \<longrightarrow>
      MultinodeObjective_clear_penalty self ocp nlp =
        (case clear_penalty (self\<lparr>weight := w\<rparr>) ocp nlp of
           (s1, o1, n1) \<Rightarrow> (s1\<lparr>weight := weight self\<rparr>, o1, n1)) \<and>
      (\<forall>pn rest.
         case add_penalty_to_pool (self\<lparr>weight := w\<rparr>) (pn # rest) of
           Inl e \<Rightarrow> MultinodeObjective_add_penalty_to_pool self (pn # rest) = Inl e
         | Inr (o2, n2) \<Rightarrow>
             (\<exists>j < length (objective_pool (ocp_of pn) (nlp_of pn)).
                objective_pool o2 n2 =
                  (objective_pool (ocp_of pn) (nlp_of pn))[j := PenaltyOf (self\<lparr>weight := w\<rparr>)] \<and>
                all_constraint_pools o2 n2 = all_constraint_pools (ocp_of pn) (nlp_of pn) \<and>
                MultinodeObjective_add_penalty_to_pool self (pn # rest) =
                  Inr (put_objective_pool
                         ((objective_pool (ocp_of pn) (nlp_of pn))[j := PenaltyOf self]) o2 n2))))"
proof (intro conjI impI)
  show "case MultinodeObjective_clear_penalty self ocp nlp of (s1, o1, n1) \<Rightarrow>
      all_constraint_pools o1 n1 = all_constraint_pools ocp nlp \<and>
      (list_index s1, objective_pool o1 n1) =
         reserve_slot (list_index self) (objective_pool ocp nlp) \<and>
      (\<forall>rest. \<exists>o2 n2.
         MultinodeObjective_add_penalty_to_pool s1 (\<lparr>ocp_of = o1, nlp_of = n1\<rparr> # rest)
           = Inr (o2, n2) \<and>
         objective_pool o2 n2 = (objective_pool o1 n1)[nat (list_index s1) := PenaltyOf s1] \<and>
         objective_pool o2 n2 ! nat (list_index s1) = PenaltyOf s1 \<and>
         all_constraint_pools o2 n2 = all_constraint_pools ocp nlp)"
    by (rule MultinodeObjective_clear_penalty_then_install)
  show "\<forall>pn rest.
      let pool = objective_pool (ocp_of pn) (nlp_of pn);
          j = (if list_index self < 0 then int (length pool) + list_index self
               else list_index self)
      in (0 \<le> j \<and> j < int (length pool) \<longrightarrow>
            (\<exists>o1 n1. MultinodeObjective_add_penalty_to_pool self (pn # rest) = Inr (o1, n1) \<and>
               (o1, n1) = put_objective_pool (pool[nat j := PenaltyOf self]) (ocp_of pn) (nlp_of pn) \<and>
               objective_pool o1 n1 = pool[nat j := PenaltyOf self] \<and>
               objective_pool o1 n1 ! nat j = PenaltyOf self \<and>
               all_constraint_pools o1 n1 = all_constraint_pools (ocp_of pn) (nlp_of pn))) \<and>
         (\<not> (0 \<le> j \<and> j < int (length pool)) \<longrightarrow>
            MultinodeObjective_add_penalty_to_pool self (pn # rest) = Inl IndexError)"
    by (rule MultinodeObjective_install)
  show "MultinodeObjective_add_penalty_to_pool self [] = Inl IndexError"
    by (simp add: MultinodeObjective_add_penalty_to_pool_def)
next
  assume "weight self \<noteq> 0"
  then show "MultinodeObjective_clear_penalty self ocp nlp = clear_penalty self ocp nlp"
    by (simp add: MultinodeObjective_clear_penalty_eq clear_penalty_eq target_pool_def)
next
  assume w: "weight self \<noteq> 0"
  show "MultinodeObjective_add_penalty_to_pool self all_pn = add_penalty_to_pool self all_pn"
  proof (cases all_pn)
    case Nil
    then show ?thesis
      by (simp add: MultinodeObjective_add_penalty_to_pool_def add_penalty_to_pool_def)
  next
    case (Cons pn rest)
    with w show ?thesis
      by (simp add: MultinodeObjective_add_penalty_to_pool_eq add_penalty_to_pool_eq
          target_pool_def split: sum.splits)
  qed
next
  assume "w \<noteq> 0"
  then show "MultinodeObjective_clear_penalty self ocp nlp =
        (case clear_penalty (self\<lparr>weight := w\<rparr>) ocp nlp of
           (s1, o1, n1) \<Rightarrow> (s1\<lparr>weight := weight self\<rparr>, o1, n1))"
    by (simp add: MultinodeObjective_clear_penalty_eq clear_penalty_eq target_pool_def
        Let_def split: prod.splits)
next
  assume "w \<noteq> 0"
  then show "\<forall>pn rest.
         case add_penalty_to_pool (self\<lparr>weight := w\<rparr>) (pn # rest) of
           Inl e \<Rightarrow> MultinodeObjective_add_penalty_to_pool self (pn # rest) = Inl e
         | Inr (o2, n2) \<Rightarrow>
             (\<exists>j < length (objective_pool (ocp_of pn) (nlp_of pn)).
                objective_pool o2 n2 =
                  (objective_pool (ocp_of pn) (nlp_of pn))[j := PenaltyOf (self\<lparr>weight := w\<rparr>)] \<and>
                all_constraint_pools o2 n2 = all_constraint_pools (ocp_of pn) (nlp_of pn) \<and>
                MultinodeObjective_add_penalty_to_pool self (pn # rest) =
                  Inr (put_objective_pool
                         ((objective_pool (ocp_of pn) (nlp_of pn))[j := PenaltyOf self]) o2 n2))"
    by (rule MultinodeObjective_add_penalty_to_pool_coincides)
qed

theorem MultinodeObjective_objective_pool_only_witness:
  "weight constraint_entry = 0 \<and> (5::real) \<noteq> 0 \<and>
   MultinodeObjective_clear_penalty constraint_entry (example_ocp [ForeignPenalty 7] []) None =
     (constraint_entry\<lparr>list_index := 0\<rparr>, example_ocp [ForeignPenalty 7] [NoPenalty], None) \<and>
   MultinodeObjective_add_penalty_to_pool (constraint_entry\<lparr>list_index := 0\<rparr>)
       [\<lparr>ocp_of = example_ocp [ForeignPenalty 7] [NoPenalty], nlp_of = None\<rparr>] =
     Inr (example_ocp [ForeignPenalty 7] [PenaltyOf (constraint_entry\<lparr>list_index := 0\<rparr>)],
          None) \<and>
   MultinodeObjective_add_penalty_to_pool constraint_entry
       [phase_node (example_ocp [NoPenalty] [NoPenalty])
          (example_phase [NoPenalty] [ForeignPenalty 7, NoPenalty])] =
     Inr (example_ocp [NoPenalty] [NoPenalty],
          Some (example_phase [NoPenalty] [ForeignPenalty 7, PenaltyOf constraint_entry])) \<and>
   MultinodeObjective_add_penalty_to_pool constraint_entry
       [problem_node (example_ocp [NoPenalty] [])] = Inl IndexError \<and>
   add_penalty_to_pool constraint_entry
       [phase_node (example_ocp [NoPenalty] [NoPenalty])
          (example_phase [NoPenalty] [ForeignPenalty 7, NoPenalty])] =
     Inr (example_ocp [NoPenalty] [NoPenalty],
          Some (example_phase [PenaltyOf constraint_entry] [ForeignPenalty 7, NoPenalty])) \<and>
   clear_penalty (constraint_entry\<lparr>weight := 5\<rparr>) (example_ocp [ForeignPenalty 7] []) None =
     (constraint_entry\<lparr>weight := 5, list_index := 0\<rparr>,
      example_ocp [ForeignPenalty 7] [NoPenalty], None) \<and>
   add_penalty_to_pool (constraint_entry\<lparr>weight := 5\<rparr>)
       [phase_node (example_ocp [NoPenalty] [NoPenalty])
          (example_phase [NoPenalty] [ForeignPenalty 7, NoPenalty])] =
     Inr (example_ocp [NoPenalty] [NoPenalty],
          Some (example_phase [NoPenalty]
                  [ForeignPenalty 7, PenaltyOf (constraint_entry\<lparr>weight := 5\<rparr>)])) \<and>
   weight objective_entry \<noteq> 0 \<and>
   MultinodeObjective_add_penalty_to_pool objective_entry
       [phase_node (example_ocp [NoPenalty] [NoPenalty])
          (example_phase [NoPenalty] [ForeignPenalty 7, NoPenalty])] =
     add_penalty_to_pool objective_entry
       [phase_node (example_ocp [NoPenalty] [NoPenalty])
          (example_phase [NoPenalty] [ForeignPenalty 7, NoPenalty])] \<and>
   MultinodeObjective_add_penalty_to_pool objective_entry
       [phase_node (example_ocp [NoPenalty] [NoPenalty])
          (example_phase [NoPenalty] [ForeignPenalty 7, NoPenalty])] =
     Inr (example_ocp [NoPenalty] [NoPenalty],
          Some (example_phase [NoPenalty] [ForeignPenalty 7, PenaltyOf objective_entry]))"
  using MultinodeObjective_objective_pool_only
    [where self = constraint_entry and ocp = "example_ocp [ForeignPenalty 7] []"
       and nlp = None and w = 5
       and all_pn = "[phase_node (example_ocp [NoPenalty] [NoPenalty])
          (example_phase [NoPenalty] [ForeignPenalty 7, NoPenalty])]"]
    MultinodeObjective_objective_pool_only
    [where self = objective_entry and ocp = "example_ocp [ForeignPenalty 7] []"
       and nlp = None and w = 5
       and all_pn = "[phase_node (example_ocp [NoPenalty] [NoPenalty])
          (example_phase [NoPenalty] [ForeignPenalty 7, NoPenalty])]"]
  by (simp add: clear_penalty_eq MultinodeObjective_clear_penalty_eq target_pool_def
      example_entry_fields example_pools reserve_slot_example_unassigned
      MultinodeObjective_install_examples install_examples_weight)


section \<open>Node validation and the constraint type\<close>

lemma node_accepted_iff:
  "node_accepted v \<longleftrightarrow> v \<in> set valid_markers \<or> isinstance_int v"
  by (cases v rule: node_accepted.cases) (simp_all add: in_valid_markers isinstance_int_def)

lemma MultinodePenalty_init_rejected:
  "\<not> (node_accepted (arg_first_node a) \<and> node_accepted (arg_second_node a)) \<Longrightarrow>
     MultinodePenalty_init a = Inl (NotImplementedError node_message)"
  by (auto simp: MultinodePenalty_init_def node_accepted_iff Let_def split: prod.splits)

lemma MultinodePenalty_init_accepted:
  "node_accepted (arg_first_node a) \<Longrightarrow> node_accepted (arg_second_node a) \<Longrightarrow>
     \<exists>p. MultinodePenalty_init a = Inr p"
  by (auto simp: MultinodePenalty_init_def node_accepted_iff Let_def split: prod.splits)

text \<open>
  C1, as the code has it. Construction succeeds when each of \<open>first_node\<close> and
  \<open>second_node\<close> is one of the markers START, MID, PENULTIMATE, END or an instance of
  \<open>int\<close> (any integer, a negative one too, and a \<open>bool\<close>), and the entry keeps both
  arguments; for every other value of either argument (a string, a float, \<open>None\<close>,
  another member of \<open>Node\<close>) it raises \<open>NotImplementedError\<close>.
\<close>

theorem MultinodePenalty_init_node_validation:
  "(node_accepted (arg_first_node a) \<and> node_accepted (arg_second_node a) \<longrightarrow>
      (\<exists>p. MultinodePenalty_init a = Inr p \<and>
           first_node p = arg_first_node a \<and> second_node p = arg_second_node a)) \<and>
   (\<not> (node_accepted (arg_first_node a) \<and> node_accepted (arg_second_node a)) \<longrightarrow>
      MultinodePenalty_init a = Inl (NotImplementedError node_message))"
proof (intro conjI impI)
  assume "node_accepted (arg_first_node a) \<and> node_accepted (arg_second_node a)"
  then obtain p where p: "MultinodePenalty_init a = Inr p"
    using MultinodePenalty_init_accepted by blast
  with MultinodePenalty_init_Inr [OF p]
  show "\<exists>p. MultinodePenalty_init a = Inr p \<and>
           first_node p = arg_first_node a \<and> second_node p = arg_second_node a"
    by simp
next
  assume "\<not> (node_accepted (arg_first_node a) \<and> node_accepted (arg_second_node a))"
  then show "MultinodePenalty_init a = Inl (NotImplementedError node_message)"
    by (rule MultinodePenalty_init_rejected)
qed

theorem MultinodePenalty_init_node_validation_witness:
  "node_accepted (PyInt (-1)) \<and> node_accepted (NodeMarker START) \<and>
   (\<exists>p. MultinodePenalty_init (example_args (PyInt (-1)) (NodeMarker START) 0) = Inr p \<and>
        first_node p = PyInt (-1) \<and> second_node p = NodeMarker START) \<and>
   \<not> node_accepted (PyFloat 1.5) \<and>
   MultinodePenalty_init (example_args (NodeMarker END) (PyFloat 1.5) 0) =
     Inl (NotImplementedError node_message)"
  using MultinodePenalty_init_node_validation [of "example_args (PyInt (-1)) (NodeMarker START) 0"]
    MultinodePenalty_init_node_validation [of "example_args (NodeMarker END) (PyFloat 1.5) 0"]
  by (simp add: example_args_def)

text \<open>
  The claim C1 as the spec states it fails: a negative integer is accepted.
\<close>

theorem negative_node_accepted:
  "MultinodePenalty_init (example_args (PyInt (-1)) (NodeMarker START) 0) =
     Inr (example_penalty (PyInt (-1)) (NodeMarker START) 0)"
  by (rule MultinodePenalty_init_example)

lemma add_Inr:
  "add self fcn extra = Inr entries \<Longrightarrow>
     \<exists>a p. MultinodePenalty_init a = Inr p \<and> entries = self @ [p]"
  by (auto simp: add_def Let_def split: if_splits sum.splits)

lemma MultinodeObjective_init_Inr:
  "MultinodeObjective_init Objective_init a = Inr p \<Longrightarrow>
     \<exists>a'. MultinodePenalty_init a' = Inr p"
  by (auto simp: MultinodeObjective_init_def split: option.splits)

lemma add_example:
  "add [] (UserFunction 3) (example_args (NodeMarker END) (NodeMarker START) 0) =
     Inr [(example_penalty (NodeMarker END) (NodeMarker START) 0)
            \<lparr>penalty := PenaltyFcn CUSTOM, custom_function := UserFunction 3\<rparr>]"
  by (simp add: add_def MultinodePenalty_init_def example_args_def example_penalty_def
      in_valid_markers isinstance_int_def isinstance_MultinodePenaltyFcn_def)

text \<open>
  C9. Every \<open>MultinodePenalty\<close>, and every \<open>MultinodeObjective\<close>, has the constraint
  type INTERNAL right after construction, also the entry that \<open>add\<close> of a list creates
  for the user; no construction gives the type USER.
\<close>

theorem constraint_type_internal:
  "(MultinodePenalty_init a = Inr p \<longrightarrow> constraint_type p = INTERNAL \<and> constraint_type p \<noteq> USER) \<and>
   (MultinodeObjective_init Objective_init a = Inr p \<longrightarrow>
      constraint_type p = INTERNAL \<and> constraint_type p \<noteq> USER) \<and>
   (add self fcn a = Inr entries \<longrightarrow>
      (\<exists>entry. entries = self @ [entry] \<and>
         constraint_type entry = INTERNAL \<and> constraint_type entry \<noteq> USER))"
proof (intro conjI impI)
  assume "MultinodePenalty_init a = Inr p"
  then show "constraint_type p = INTERNAL" "constraint_type p \<noteq> USER"
    by (simp_all add: MultinodePenalty_init_Inr)
next
  assume "MultinodeObjective_init Objective_init a = Inr p"
  then obtain a' where "MultinodePenalty_init a' = Inr p"
    using MultinodeObjective_init_Inr by blast
  then show "constraint_type p = INTERNAL" "constraint_type p \<noteq> USER"
    by (simp_all add: MultinodePenalty_init_Inr)
next
  assume "add self fcn a = Inr entries"
  then obtain a' entry where e: "MultinodePenalty_init a' = Inr entry" "entries = self @ [entry]"
    using add_Inr by blast
  from MultinodePenalty_init_Inr [OF e(1)] e(2)
  show "\<exists>entry. entries = self @ [entry] \<and>
         constraint_type entry = INTERNAL \<and> constraint_type entry \<noteq> USER"
    by simp
qed

theorem constraint_type_internal_witness:
  "MultinodePenalty_init (example_args (PyInt 2) (NodeMarker START) 0) =
     Inr (example_penalty (PyInt 2) (NodeMarker START) 0) \<and>
   constraint_type (example_penalty (PyInt 2) (NodeMarker START) 0) = INTERNAL \<and>
   MultinodeObjective_init (\<lambda>a. None) (example_args (PyInt 2) (NodeMarker START) 0) =
     Inr (example_penalty (PyInt 2) (NodeMarker START) 0) \<and>
   add [] (UserFunction 3) (example_args (NodeMarker END) (NodeMarker START) 0) =
     Inr [(example_penalty (NodeMarker END) (NodeMarker START) 0)
            \<lparr>penalty := PenaltyFcn CUSTOM, custom_function := UserFunction 3\<rparr>]"
  using constraint_type_internal
    [where a = "example_args (PyInt 2) (NodeMarker START) 0"
       and p = "example_penalty (PyInt 2) (NodeMarker START) 0"
       and Objective_init = "\<lambda>a. None" and self = "[]" and fcn = "PenaltyFcn EQUALITY"
       and entries = "[example_penalty (PyInt 2) (NodeMarker START) 0]"]
    MultinodePenalty_init_example [of 2 0] add_example
  by (simp add: MultinodeObjective_init_def example_args_def)

section \<open>Preparing the list\<close>

lemma prepare_loop_valid:
  "\<forall>m \<in> set xs. valid_phase_indices n m \<Longrightarrow>
     prepare_loop n xs full existing = Inr (full @ map prepared xs)"
proof (induction xs arbitrary: full existing)
  case Nil
  then show ?case by simp
next
  case (Cons m xs)
  then show ?case
    by (simp add: valid_phase_indices_def prepared_def Let_def not_le)
qed

lemma prepare_loop_invalid:
  "\<forall>m \<in> set pre. valid_phase_indices n m \<Longrightarrow> \<not> valid_phase_indices n m \<Longrightarrow>
     prepare_loop n (pre @ m # post) full existing = Inl (phase_error n m)"
proof (induction pre arbitrary: full existing)
  case Nil
  then show ?case
    by (auto simp: valid_phase_indices_def phase_error_def Let_def)
next
  case (Cons x pre)
  then show ?case
    by (simp add: valid_phase_indices_def Let_def not_le)
qed

lemma prepared_fields:
  "prepared m = m\<lparr>base := base (prepared m)\<rparr>"
  by (simp add: prepared_def)

text \<open>
  C2. When every entry has both phase indices in \<open>0 \<le> idx < n_phases\<close>,
  \<open>prepare_multinode_penalties\<close> returns the entries that were added, in insertion
  order and as many as were added: each is the added entry, changed in place in its
  \<open>base\<close> only. When an entry has a phase index that is negative or not below
  \<open>n_phases\<close>, it raises, and the error is the one of the first such entry.
\<close>

theorem prepare_multinode_penalties_phases:
  "((\<forall>m \<in> set self. valid_phase_indices (n_phases ocp) m) \<longrightarrow>
      (\<exists>ys. prepare_multinode_penalties self ocp = Inr ys \<and> length ys = length self \<and>
            (\<forall>i < length self. ys ! i = (self ! i)\<lparr>base := base (ys ! i)\<rparr>))) \<and>
   (\<forall>pre m post.
      self = pre @ m # post \<and> (\<forall>x \<in> set pre. valid_phase_indices (n_phases ocp) x) \<and>
      \<not> valid_phase_indices (n_phases ocp) m \<longrightarrow>
      prepare_multinode_penalties self ocp = Inl (phase_error (n_phases ocp) m)) \<and>
   ((\<exists>m \<in> set self. \<not> valid_phase_indices (n_phases ocp) m) \<longrightarrow>
      (\<exists>message. prepare_multinode_penalties self ocp = Inl (RuntimeError message)))"
proof (intro conjI impI allI)
  assume v: "\<forall>m \<in> set self. valid_phase_indices (n_phases ocp) m"
  have "prepare_multinode_penalties self ocp = Inr (map prepared self)"
    using prepare_loop_valid [OF v, of "[]" "[]"] by (simp add: prepare_multinode_penalties_def)
  moreover have "\<forall>i < length self. map prepared self ! i =
      (self ! i)\<lparr>base := base (map prepared self ! i)\<rparr>"
    using prepared_fields by simp
  ultimately show "\<exists>ys. prepare_multinode_penalties self ocp = Inr ys \<and>
      length ys = length self \<and> (\<forall>i < length self. ys ! i = (self ! i)\<lparr>base := base (ys ! i)\<rparr>)"
    by simp
next
  fix pre m post
  assume "self = pre @ m # post \<and> (\<forall>x \<in> set pre. valid_phase_indices (n_phases ocp) x) \<and>
      \<not> valid_phase_indices (n_phases ocp) m"
  then show "prepare_multinode_penalties self ocp = Inl (phase_error (n_phases ocp) m)"
    using prepare_loop_invalid [of pre "n_phases ocp" m post "[]" "[]"]
    by (simp add: prepare_multinode_penalties_def)
next
  assume "\<exists>m \<in> set self. \<not> valid_phase_indices (n_phases ocp) m"
  then obtain pre m post where s: "self = pre @ m # post"
      "\<not> valid_phase_indices (n_phases ocp) m"
      "\<forall>x \<in> set pre. \<not> \<not> valid_phase_indices (n_phases ocp) x"
    using split_list_first_prop [of self "\<lambda>m. \<not> valid_phase_indices (n_phases ocp) m"] by blast
  then have "prepare_multinode_penalties self ocp = Inl (phase_error (n_phases ocp) m)"
    using prepare_loop_invalid [of pre "n_phases ocp" m post "[]" "[]"]
    by (simp add: prepare_multinode_penalties_def)
  then show "\<exists>message. prepare_multinode_penalties self ocp = Inl (RuntimeError message)"
    by (simp add: phase_error_def)
qed

lemma entry_at_valid:
  "valid_phase_indices 2 (entry_at 0 1 w)" "valid_phase_indices 2 (entry_at 1 1 w)"
  "\<not> valid_phase_indices 2 (entry_at 0 2 w)" "\<not> valid_phase_indices 2 (entry_at (-1) 0 w)"
  by (simp_all add: valid_phase_indices_def entry_at_def)

theorem prepare_multinode_penalties_phases_witness:
  "(\<exists>ys. prepare_multinode_penalties [entry_at 0 1 0, entry_at 1 1 5] (example_ocp [] []) = Inr ys \<and>
        length ys = 2 \<and> ys ! 0 = (entry_at 0 1 0)\<lparr>base := base (ys ! 0)\<rparr> \<and>
        ys ! 1 = (entry_at 1 1 5)\<lparr>base := base (ys ! 1)\<rparr>) \<and>
   prepare_multinode_penalties [entry_at 0 1 0, entry_at (-1) 0 0, entry_at 0 2 0]
     (example_ocp [] []) = Inl (RuntimeError positive_message)"
proof -
  let ?ocp = "example_ocp [] []"
  have n: "n_phases ?ocp = 2" by (simp add: example_ocp_def)
  have "\<forall>m \<in> set [entry_at 0 1 0, entry_at 1 1 5]. valid_phase_indices (n_phases ?ocp) m"
    by (simp add: n entry_at_valid)
  with prepare_multinode_penalties_phases [of "[entry_at 0 1 0, entry_at 1 1 5]" ?ocp]
  obtain ys where ys: "prepare_multinode_penalties [entry_at 0 1 0, entry_at 1 1 5] ?ocp = Inr ys"
      "length ys = length [entry_at 0 1 0, entry_at 1 1 (5::real)]"
      "\<forall>i < length [entry_at 0 1 0, entry_at 1 1 (5::real)].
          ys ! i = ([entry_at 0 1 0, entry_at 1 1 5] ! i)\<lparr>base := base (ys ! i)\<rparr>"
    by blast
  from ys(3) [rule_format, of 0] ys(3) [rule_format, of 1]
  have "ys ! 0 = (entry_at 0 1 0)\<lparr>base := base (ys ! 0)\<rparr>"
      "ys ! 1 = (entry_at 1 1 5)\<lparr>base := base (ys ! 1)\<rparr>"
    by simp_all
  with ys have first: "\<exists>ys. prepare_multinode_penalties [entry_at 0 1 0, entry_at 1 1 5] ?ocp = Inr ys \<and>
        length ys = 2 \<and> ys ! 0 = (entry_at 0 1 0)\<lparr>base := base (ys ! 0)\<rparr> \<and>
        ys ! 1 = (entry_at 1 1 5)\<lparr>base := base (ys ! 1)\<rparr>"
    by simp
  have "[entry_at 0 1 0, entry_at (-1) 0 0, entry_at 0 2 (0::real)] =
          [entry_at 0 1 0] @ entry_at (-1) 0 0 # [entry_at 0 2 0] \<and>
        (\<forall>x \<in> set [entry_at 0 1 (0::real)]. valid_phase_indices (n_phases ?ocp) x) \<and>
        \<not> valid_phase_indices (n_phases ?ocp) (entry_at (-1) 0 0)"
    by (simp add: n entry_at_valid)
  with prepare_multinode_penalties_phases
         [of "[entry_at 0 1 0, entry_at (-1) 0 0, entry_at 0 2 0]" ?ocp]
  have "prepare_multinode_penalties [entry_at 0 1 0, entry_at (-1) 0 0, entry_at 0 2 0] ?ocp =
          Inl (phase_error (n_phases ?ocp) (entry_at (-1) 0 0))"
    by blast
  then have "prepare_multinode_penalties [entry_at 0 1 0, entry_at (-1) 0 0, entry_at 0 2 0] ?ocp =
          Inl (RuntimeError positive_message)"
    by (simp add: n phase_error_def entry_at_def)
  with first show ?thesis by simp
qed


section \<open>The strategies: residuals\<close>

lemma mx_minus_same_shape:
  "shape a = shape b \<Longrightarrow>
     mx_minus a b = Inr (MX (n_cols a) (map2 (map2 Diff) (mx_rows a) (mx_rows b)))"
  by (simp add: mx_minus_def)

lemma equality_two:
  "nlp_of pn_pre = Some nlp_pre \<Longrightarrow> nlp_of pn_post = Some nlp_post \<Longrightarrow>
     equality m (pn_pre # pn_post # rest) =
       (if shape (to_second m (cx_end (states nlp_pre))) \<noteq> shape (to_first m (cx (states nlp_post)))
        then Inl (RuntimeError
                    (continuity_message (shape (to_second m (cx_end (states nlp_pre))))
                       (shape (to_first m (cx (states nlp_post))))))
        else mx_minus (to_second m (cx_end (states nlp_pre))) (to_first m (cx (states nlp_post))))"
  by (simp add: equality_def Let_def)

lemma continuity_message_advice:
  "\<exists>text. continuity_message s1 s2 =
     text @ ''Please use a custom transition or supply states_mapping''"
  unfolding continuity_message_def advice_def
  by (metis append.assoc)

text \<open>
  C4. For two node contexts, EQUALITY maps the end-of-interval state of the pre node
  with the direction \<open>to_second\<close> and the state of the post node with the direction
  \<open>to_first\<close>. When the two mapped vectors have the same shape, it returns their
  elementwise difference, pre minus post, of that shape. When the shapes differ, it
  raises a \<open>RuntimeError\<close> whose message ends with the advice to use a custom
  transition or to supply \<open>states_mapping\<close>.
\<close>

theorem equality_residual:
  "nlp_of pn_pre = Some nlp_pre \<Longrightarrow> nlp_of pn_post = Some nlp_post \<Longrightarrow>
     states_pre = to_second m (cx_end (states nlp_pre)) \<Longrightarrow>
     states_post = to_first m (cx (states nlp_post)) \<Longrightarrow>
     (shape states_pre = shape states_post \<longrightarrow>
        (\<exists>r. equality m (pn_pre # pn_post # rest) = Inr r \<and> shape r = shape states_pre \<and>
             mx_rows r = map2 (map2 Diff) (mx_rows states_pre) (mx_rows states_post) \<and>
             (\<forall>i j. i < length (mx_rows states_pre) \<and> j < length (mx_rows states_pre ! i) \<and>
                    j < length (mx_rows states_post ! i) \<longrightarrow>
                    mx_rows r ! i ! j =
                      Diff (mx_rows states_pre ! i ! j) (mx_rows states_post ! i ! j)))) \<and>
     (shape states_pre \<noteq> shape states_post \<longrightarrow>
        (\<exists>text. equality m (pn_pre # pn_post # rest) =
           Inl (RuntimeError
                  (text @ ''Please use a custom transition or supply states_mapping''))))"
proof (intro conjI impI)
  assume n: "nlp_of pn_pre = Some nlp_pre" "nlp_of pn_post = Some nlp_post"
    and d: "states_pre = to_second m (cx_end (states nlp_pre))"
      "states_post = to_first m (cx (states nlp_post))"
    and s: "shape states_pre = shape states_post"
  let ?r = "MX (n_cols states_pre) (map2 (map2 Diff) (mx_rows states_pre) (mx_rows states_post))"
  have e: "equality m (pn_pre # pn_post # rest) = Inr ?r"
    using s d by (simp add: equality_two [OF n] mx_minus_same_shape)
  from s have l: "length (mx_rows states_pre) = length (mx_rows states_post)"
    by (simp add: shape_def)
  have "shape ?r = shape states_pre"
    using l by (simp add: shape_def)
  moreover have "\<forall>i j. i < length (mx_rows states_pre) \<and> j < length (mx_rows states_pre ! i) \<and>
                    j < length (mx_rows states_post ! i) \<longrightarrow>
                    mx_rows ?r ! i ! j =
                      Diff (mx_rows states_pre ! i ! j) (mx_rows states_post ! i ! j)"
    using l by simp
  ultimately show "\<exists>r. equality m (pn_pre # pn_post # rest) = Inr r \<and> shape r = shape states_pre \<and>
             mx_rows r = map2 (map2 Diff) (mx_rows states_pre) (mx_rows states_post) \<and>
             (\<forall>i j. i < length (mx_rows states_pre) \<and> j < length (mx_rows states_pre ! i) \<and>
                    j < length (mx_rows states_post ! i) \<longrightarrow>
                    mx_rows r ! i ! j =
                      Diff (mx_rows states_pre ! i ! j) (mx_rows states_post ! i ! j))"
    using e by (intro exI [of _ ?r]) simp
next
  assume n: "nlp_of pn_pre = Some nlp_pre" "nlp_of pn_post = Some nlp_post"
    and d: "states_pre = to_second m (cx_end (states nlp_pre))"
      "states_post = to_first m (cx (states nlp_post))"
    and s: "shape states_pre \<noteq> shape states_post"
  obtain head where "continuity_message (shape states_pre) (shape states_post) =
      head @ ''Please use a custom transition or supply states_mapping''"
    using continuity_message_advice by blast
  then show "\<exists>text. equality m (pn_pre # pn_post # rest) =
           Inl (RuntimeError
                  (text @ ''Please use a custom transition or supply states_mapping''))"
    using s d by (simp add: equality_two [OF n])
qed

lemma example_node_fields:
  "nlp_of (example_node name) = Some (example_nlp name)"
  "cx (states (example_nlp name)) = state_vector name"
  "cx_end (states (example_nlp name)) = state_vector (name @ ''_end'')"
  "model (example_nlp name) = example_model"
  by (simp_all add: example_node_def example_nlp_def example_states_def)

theorem equality_residual_witness:
  "shape (state_vector ''pre_end'') = shape (state_vector ''post'') \<and>
   equality identity_mapping [example_node ''pre'', example_node ''post''] =
     Inr (MX 1 [[Diff (Symbol ''pre_end'' 0 0) (Symbol ''post'' 0 0)],
                [Diff (Symbol ''pre_end'' 1 0) (Symbol ''post'' 1 0)]]) \<and>
   shape (MX 1 (take 1 (mx_rows (state_vector ''pre_end'')))) \<noteq> shape (state_vector ''post'') \<and>
   (\<exists>text. equality first_row_mapping [example_node ''pre'', example_node ''post''] =
      Inl (RuntimeError (text @ ''Please use a custom transition or supply states_mapping'')))"
proof -
  have s: "shape (state_vector ''pre_end'') = shape (state_vector ''post'')"
    by (simp add: shape_def state_vector_def)
  have pre: "state_vector ''pre_end'' =
      to_second identity_mapping (cx_end (states (example_nlp ''pre'')))"
    and post: "state_vector ''post'' = to_first identity_mapping (cx (states (example_nlp ''post'')))"
    by (simp_all add: example_node_fields identity_mapping_def)
  note same = equality_residual
    [where rest = "[]", OF example_node_fields(1) example_node_fields(1) pre post,
     THEN conjunct1, THEN mp, OF s]
  then obtain r where r: "equality identity_mapping [example_node ''pre'', example_node ''post''] = Inr r"
      "shape r = shape (state_vector ''pre_end'')"
      "mx_rows r = map2 (map2 Diff) (mx_rows (state_vector ''pre_end''))
                        (mx_rows (state_vector ''post''))"
    by blast
  have "r = MX 1 [[Diff (Symbol ''pre_end'' 0 0) (Symbol ''post'' 0 0)],
                [Diff (Symbol ''pre_end'' 1 0) (Symbol ''post'' 1 0)]]"
    using r(2,3) by (cases r) (simp add: shape_def state_vector_def)
  with r(1) have first: "equality identity_mapping [example_node ''pre'', example_node ''post''] =
     Inr (MX 1 [[Diff (Symbol ''pre_end'' 0 0) (Symbol ''post'' 0 0)],
                [Diff (Symbol ''pre_end'' 1 0) (Symbol ''post'' 1 0)]])"
    by simp
  have d: "shape (MX 1 (take 1 (mx_rows (state_vector ''pre_end'')))) \<noteq> shape (state_vector ''post'')"
    by (simp add: shape_def state_vector_def)
  have pre': "MX 1 (take 1 (mx_rows (state_vector ''pre_end''))) =
      to_second first_row_mapping (cx_end (states (example_nlp ''pre'')))"
    and post': "state_vector ''post'' = to_first first_row_mapping (cx (states (example_nlp ''post'')))"
    by (simp_all add: example_node_fields first_row_mapping_def state_vector_def)
  note differ = equality_residual
    [where rest = "[]", OF example_node_fields(1) example_node_fields(1) pre' post',
     THEN conjunct2, THEN mp, OF d]
  with s first d show ?thesis by blast
qed


section \<open>The strategies on the centre of mass\<close>

lemma com_velocity_equality_Inr:
  "com_velocity_equality f m (pn_pre # pn_post # rest) = Inr r \<Longrightarrow>
   nlp_of pn_pre = Some nlp_pre \<Longrightarrow> nlp_of pn_post = Some nlp_post \<Longrightarrow>
   \<exists>states_post_sym_list states_post_sym q qdot pre_q pre_qdot post_q post_qdot more difference.
     sym_list (states nlp_post) (keys (states nlp_post)) = Inr states_post_sym_list \<and>
     states_post_sym_list = post_q # post_qdot # more \<and>
     vertcat states_post_sym_list = Inr states_post_sym \<and>
     shape (to_second m (cx_end (states nlp_pre))) = shape (to_first m (cx (states nlp_post))) \<and>
     getitem (states nlp_pre) ''q'' = Inr q \<and>
     mx_getrows (to_second m (cx_end (states nlp_pre))) (index q) = Inr pre_q \<and>
     getitem (states nlp_pre) ''qdot'' = Inr qdot \<and>
     mx_getrows (to_second m (cx_end (states nlp_pre))) (index qdot) = Inr pre_qdot \<and>
     mx_minus (CoMdot (model nlp_pre) pre_q pre_qdot)
              (CoMdot (model nlp_post) post_q post_qdot) = Inr difference \<and>
     r = f ''com_dot_equality'' difference
           [to_second m (cx_end (states nlp_pre)), states_post_sym]
           [cx_end (states nlp_pre), cx (states nlp_post)]"
  by (auto simp: com_velocity_equality_def Let_def split: sum.splits list.splits if_splits)

lemma com_equality_Inr:
  "com_equality f m (pn_pre # pn_post # rest) = Inr r \<Longrightarrow>
   nlp_of pn_pre = Some nlp_pre \<Longrightarrow> nlp_of pn_post = Some nlp_post \<Longrightarrow>
   \<exists>states_post_sym_list states_post_sym q pre_q post_q more difference.
     sym_list (states nlp_post) (keys (states nlp_post)) = Inr states_post_sym_list \<and>
     states_post_sym_list = post_q # more \<and>
     vertcat states_post_sym_list = Inr states_post_sym \<and>
     shape (to_second m (cx_end (states nlp_pre))) = shape (to_first m (cx (states nlp_post))) \<and>
     getitem (states nlp_pre) ''q'' = Inr q \<and>
     mx_getrows (to_second m (cx_end (states nlp_pre))) (index q) = Inr pre_q \<and>
     mx_minus (CoM (model nlp_pre) pre_q) (CoM (model nlp_post) post_q) = Inr difference \<and>
     r = f ''com_equality'' difference
           [to_second m (cx_end (states nlp_pre)), states_post_sym]
           [cx (states nlp_pre), cx (states nlp_post)]"
  by (auto simp: com_equality_def Let_def split: sum.splits list.splits if_splits)

lemma equality_Inr:
  "equality m (pn_pre # pn_post # rest) = Inr r \<Longrightarrow>
   nlp_of pn_pre = Some nlp_pre \<Longrightarrow> nlp_of pn_post = Some nlp_post \<Longrightarrow>
   mx_minus (to_second m (cx_end (states nlp_pre))) (to_first m (cx (states nlp_post))) = Inr r"
  by (simp add: equality_two split: if_splits)


lemma com_equality_example:
  "com_equality recording_func identity_mapping
     [example_node ''pre'', example_node ''post''] =
   Inr (recording_func ''com_equality''
          (MX 1 [[Diff (Opaque ''CoM'' [Symbol ''pre_end'' 0 0])
                       (Opaque ''CoM'' [Symbol ''q'' 0 0])]])
          [state_vector ''pre_end'', MX 1 [[Symbol ''q'' 0 0], [Symbol ''qdot'' 0 0]]]
          [state_vector ''pre'', state_vector ''post''])"
  by (simp add: com_equality_def Let_def example_node_def example_nlp_def example_states_def
      keys_def getitem_def mx_sym_def shape_def vertcat_def mx_getrows_def
      identity_mapping_def example_model_def mx_minus_def state_vector_def)



text \<open>
  C10. When COM_EQUALITY returns, the mapped pre-state that is the first symbolic
  input of its function is built from the end-of-interval state \<open>cx_end\<close> of the pre
  node, but the function is applied to the start-of-interval state \<open>cx\<close> of the pre
  node (and to \<open>cx\<close> of the post node). COM_VELOCITY_EQUALITY applies its function to
  \<open>cx_end\<close> of the pre node, and EQUALITY subtracts from the mapped \<open>cx_end\<close> of the
  pre node.
\<close>

theorem com_equality_evaluation:
  "nlp_of pn_pre = Some nlp_pre \<Longrightarrow> nlp_of pn_post = Some nlp_post \<Longrightarrow>
   (com_equality f m (pn_pre # pn_post # rest) = Inr r \<longrightarrow>
      (\<exists>pre_q post_q difference states_post_sym.
         mx_minus (CoM (model nlp_pre) pre_q) (CoM (model nlp_post) post_q) = Inr difference \<and>
         r = f ''com_equality'' difference
               [to_second m (cx_end (states nlp_pre)), states_post_sym]
               [cx (states nlp_pre), cx (states nlp_post)])) \<and>
   (com_velocity_equality f m (pn_pre # pn_post # rest) = Inr r \<longrightarrow>
      (\<exists>difference states_post_sym.
         r = f ''com_dot_equality'' difference
               [to_second m (cx_end (states nlp_pre)), states_post_sym]
               [cx_end (states nlp_pre), cx (states nlp_post)])) \<and>
   (equality m (pn_pre # pn_post # rest) = Inr r \<longrightarrow>
      mx_minus (to_second m (cx_end (states nlp_pre))) (to_first m (cx (states nlp_post))) = Inr r)"
proof (intro conjI impI)
  assume n: "nlp_of pn_pre = Some nlp_pre" "nlp_of pn_post = Some nlp_post"
  {
    assume "com_equality f m (pn_pre # pn_post # rest) = Inr r"
    from com_equality_Inr [OF this n]
    show "\<exists>pre_q post_q difference states_post_sym.
         mx_minus (CoM (model nlp_pre) pre_q) (CoM (model nlp_post) post_q) = Inr difference \<and>
         r = f ''com_equality'' difference
               [to_second m (cx_end (states nlp_pre)), states_post_sym]
               [cx (states nlp_pre), cx (states nlp_post)]"
      by blast
  next
    assume "com_velocity_equality f m (pn_pre # pn_post # rest) = Inr r"
    from com_velocity_equality_Inr [OF this n]
    show "\<exists>difference states_post_sym.
         r = f ''com_dot_equality'' difference
               [to_second m (cx_end (states nlp_pre)), states_post_sym]
               [cx_end (states nlp_pre), cx (states nlp_post)]"
      by blast
  next
    assume "equality m (pn_pre # pn_post # rest) = Inr r"
    from equality_Inr [OF this n]
    show "mx_minus (to_second m (cx_end (states nlp_pre))) (to_first m (cx (states nlp_post))) = Inr r" .
  }
qed

theorem com_equality_evaluation_witness:
  "com_equality recording_func identity_mapping
     [example_node ''pre'', example_node ''post''] =
   Inr (recording_func ''com_equality''
          (MX 1 [[Diff (Opaque ''CoM'' [Symbol ''pre_end'' 0 0])
                       (Opaque ''CoM'' [Symbol ''q'' 0 0])]])
          [state_vector ''pre_end'', MX 1 [[Symbol ''q'' 0 0], [Symbol ''qdot'' 0 0]]]
          [state_vector ''pre'', state_vector ''post'']) \<and>
   cx (states (example_nlp ''pre'')) = state_vector ''pre'' \<and>
   cx_end (states (example_nlp ''pre'')) = state_vector ''pre_end'' \<and>
   state_vector ''pre'' \<noteq> state_vector ''pre_end'' \<and>
   (\<exists>difference states_post_sym.
      com_equality recording_func identity_mapping
        [example_node ''pre'', example_node ''post''] =
      Inr (recording_func ''com_equality'' difference
             [state_vector ''pre_end'', states_post_sym]
             [cx (states (example_nlp ''pre'')), cx (states (example_nlp ''post''))]))"
proof -
  from com_equality_evaluation
    [where rest = "[]" and f = recording_func and m = identity_mapping,
     OF example_node_fields(1) example_node_fields(1), THEN conjunct1, THEN mp,
     OF com_equality_example]
  obtain difference states_post_sym where
    "recording_func ''com_equality''
          (MX 1 [[Diff (Opaque ''CoM'' [Symbol ''pre_end'' 0 0])
                       (Opaque ''CoM'' [Symbol ''q'' 0 0])]])
          [state_vector ''pre_end'', MX 1 [[Symbol ''q'' 0 0], [Symbol ''qdot'' 0 0]]]
          [state_vector ''pre'', state_vector ''post''] =
     recording_func ''com_equality'' difference
          [to_second identity_mapping (cx_end (states (example_nlp ''pre''))), states_post_sym]
          [cx (states (example_nlp ''pre'')), cx (states (example_nlp ''post''))]"
    by blast
  moreover have "state_vector ''pre'' \<noteq> state_vector ''pre_end''"
    by (simp add: state_vector_def)
  ultimately show ?thesis
    using com_equality_example
    by (auto simp: identity_mapping_def example_node_fields)
qed

section \<open>The weight of a multinode objective\<close>

text \<open>
  \<open>MultinodeObjective.__init__\<close> hands \<open>weight\<close> to the initialiser of \<open>Objective\<close>
  only: \<open>MultinodePenalty.__init__\<close>, called last, assigns its default. An entry so
  constructed has the weight 0, whatever weight was asked for.
\<close>

theorem MultinodeObjective_init_weight:
  "MultinodeObjective_init Objective_init a = Inr p \<Longrightarrow> weight p = 0"
  by (auto simp: MultinodeObjective_init_def split: option.splits dest!: MultinodePenalty_init_Inr)

theorem MultinodeObjective_init_weight_witness:
  "MultinodeObjective_init (\<lambda>a. None) (example_args (PyInt 2) (NodeMarker START) 5) =
     Inr (example_penalty (PyInt 2) (NodeMarker START) 0) \<and>
   weight (example_penalty (PyInt 2) (NodeMarker START) 0) = 0"
  using MultinodeObjective_init_weight
    [of "\<lambda>a. None" "example_args (PyInt 2) (NodeMarker START) 5"
        "example_penalty (PyInt 2) (NodeMarker START) 0"]
    MultinodePenalty_init_example [of 2 0]
  by (simp add: MultinodeObjective_init_def example_args_def)

end
